theory Spec2Isabelle
  imports Complex_Main
begin

section \<open>Numbers and coercions\<close>

text \<open>
  The component computes on JavaScript numbers. Finite numbers are read as reals, with exact
  arithmetic; the one non-finite value the code guards against, \<open>NaN\<close> (what
  \<open>Number(x)\<close> gives for a non-numeric field), is kept as a constructor of its own, so
  that every \<open>Number(x) || d\<close> of the source is a branch of the model. Infinite values
  are not modelled.
\<close>

datatype jsnum = NaN | Num real

text \<open>\<open>Number(x) || d\<close>: \<open>NaN\<close> and \<open>0\<close> are falsy and give the default.\<close>

fun number_or :: "jsnum \<Rightarrow> real \<Rightarrow> real" where
  "number_or NaN d = d"
| "number_or (Num v) d = (if v = 0 then d else v)"

type_synonym vec3 = "real \<times> real \<times> real"

section \<open>Unit normalizer\<close>

text \<open>
  \<open>convertToMeters(value, unit = "m")\<close>: a missing unit (\<open>None\<close>) takes the default
  parameter \<open>"m"\<close>; the \<open>switch\<close> falls to \<open>default\<close> for every other string.
\<close>

definition convertToMeters :: "real \<Rightarrow> string option \<Rightarrow> real" where
  "convertToMeters v unit =
     (let u = (case unit of None \<Rightarrow> ''m'' | Some s \<Rightarrow> s) in
      if u = ''cm'' then v / 100
      else if u = ''mm'' then v / 1000
      else if u = ''in'' then v * (254 / 10000)
      else v)"

section \<open>Input records\<close>

record ContainerDim =
  cd_length :: jsnum
  cd_width :: jsnum
  cd_height :: jsnum
  cd_unit :: "string option"

record BoxDim =
  bd_length :: jsnum
  bd_width :: jsnum
  bd_height :: jsnum
  bd_weight :: jsnum
  bd_quantity :: jsnum
  bd_rotation :: bool
  bd_unit :: string

text \<open>
  \<open>position: any\<close>. The cases \<open>parsePositionRaw\<close> tells apart: a falsy value, an array,
  any other object (its keys are strings, \<open>pos[0]\<close> is the key \<open>"0"\<close>), and a truthy
  value that is not an object. A component is \<open>None\<close> where the slot is \<open>undefined\<close>
  or \<open>null\<close>, and otherwise holds what \<open>Number\<close> reads from it.
\<close>

datatype position =
    PosFalsy
  | PosArray "jsnum option list"
  | PosObject "(string \<times> jsnum) list"
  | PosOther

record Dimensions =
  dim_length :: jsnum
  dim_width :: jsnum
  dim_height :: jsnum

record PackedItemData =
  pi_name :: string
  pi_position :: position
  pi_dimensions :: Dimensions

section \<open>Container dimensions and scene scale\<close>

record container =
  containerLength :: real
  containerWidth :: real
  containerHeight :: real

definition contL :: "ContainerDim \<Rightarrow> real" where
  "contL cd = convertToMeters (number_or (cd_length cd) 0)
                (Some (case cd_unit cd of None \<Rightarrow> ''m'' | Some u \<Rightarrow> u))"

definition contW :: "ContainerDim \<Rightarrow> real" where
  "contW cd = convertToMeters (number_or (cd_width cd) 0)
                (Some (case cd_unit cd of None \<Rightarrow> ''m'' | Some u \<Rightarrow> u))"

definition contH :: "ContainerDim \<Rightarrow> real" where
  "contH cd = convertToMeters (number_or (cd_height cd) 0)
                (Some (case cd_unit cd of None \<Rightarrow> ''m'' | Some u \<Rightarrow> u))"

definition container_of :: "ContainerDim \<Rightarrow> container" where
  "container_of cd =
     \<lparr> containerLength = (if contL cd > 0 then contL cd else 2),
       containerWidth = (if contW cd > 0 then contW cd else 3 / 2),
       containerHeight = (if contH cd > 0 then contH cd else 3 / 2) \<rparr>"

definition maxDim :: "container \<Rightarrow> real" where
  "maxDim c = max (max (containerLength c) (containerWidth c)) (containerHeight c)"

definition targetMax :: real where
  "targetMax = 8"

definition sceneScale :: "container \<Rightarrow> real" where
  "sceneScale c = (if maxDim c > 0 then targetMax / maxDim c else 1)"

section \<open>Raw positions\<close>

text \<open>
  \<open>parsePositionRaw\<close>. An array of three or more slots is read by index; every other
  object (a shorter array too, which has no \<open>x\<close>, \<open>y\<close>, \<open>z\<close>) is read by
  \<open>pos.x ?? pos[0] ?? 0\<close>; each component then passes through \<open>Number(..) || 0\<close>.
\<close>

definition slot :: "jsnum option list \<Rightarrow> nat \<Rightarrow> jsnum option" where
  "slot xs i = (if i < length xs then xs ! i else None)"

definition array_component :: "jsnum option list \<Rightarrow> nat \<Rightarrow> real" where
  "array_component xs i = (case slot xs i of None \<Rightarrow> 0 | Some n \<Rightarrow> number_or n 0)"

definition object_component :: "(string \<times> jsnum) list \<Rightarrow> string \<Rightarrow> string \<Rightarrow> real" where
  "object_component kv key ix =
     number_or (case map_of kv key of Some n \<Rightarrow> n
                | None \<Rightarrow> (case map_of kv ix of Some n \<Rightarrow> n | None \<Rightarrow> Num 0)) 0"

fun parsePositionRaw :: "position \<Rightarrow> vec3" where
  "parsePositionRaw PosFalsy = (0, 0, 0)"
| "parsePositionRaw (PosArray xs) =
     (if length xs \<ge> 3
      then (array_component xs 0, array_component xs 1, array_component xs 2)
      else (number_or (case slot xs 0 of None \<Rightarrow> Num 0 | Some n \<Rightarrow> n) 0,
            number_or (case slot xs 1 of None \<Rightarrow> Num 0 | Some n \<Rightarrow> n) 0,
            number_or (case slot xs 2 of None \<Rightarrow> Num 0 | Some n \<Rightarrow> n) 0))"
| "parsePositionRaw (PosObject kv) =
     (object_component kv ''x'' ''0'', object_component kv ''y'' ''1'',
      object_component kv ''z'' ''2'')"
| "parsePositionRaw PosOther = (0, 0, 0)"

section \<open>Candidate transforms and validation\<close>

text \<open>The second argument of a transform is the item's \<open>{l, w, h}\<close>, as the triple \<open>(l, w, h)\<close>.\<close>

type_synonym transform = "vec3 \<Rightarrow> vec3 \<Rightarrow> vec3"

fun asMinCorner :: transform where
  "asMinCorner (r0, r1, r2) (l, w, h) = (r0, r1, r2)"

fun asCenter :: transform where
  "asCenter (r0, r1, r2) (l, w, h) = (r0 - l / 2, r1 - h / 2, r2 - w / 2)"

fun asMinCornerSwapXZ :: transform where
  "asMinCornerSwapXZ (r0, r1, r2) (l, w, h) = (r2, r1, r0)"

fun asCenterSwapXZ :: transform where
  "asCenterSwapXZ (r0, r1, r2) (l, w, h) = (r2 - l / 2, r1 - h / 2, r0 - w / 2)"

record candidate =
  i_fn :: transform
  i_name :: string

definition interpretations :: "candidate list" where
  "interpretations =
     [ \<lparr> i_fn = asMinCorner, i_name = ''min-corner (x=length,z=width)'' \<rparr>,
       \<lparr> i_fn = asCenter, i_name = ''center (x=length,z=width)'' \<rparr>,
       \<lparr> i_fn = asMinCornerSwapXZ, i_name = ''min-corner swapped X/Z'' \<rparr>,
       \<lparr> i_fn = asCenterSwapXZ, i_name = ''center swapped X/Z'' \<rparr> ]"

text \<open>The body of the validation loop: does this item count as an overflow?\<close>

definition overflows :: "container \<Rightarrow> transform \<Rightarrow> PackedItemData \<Rightarrow> bool" where
  "overflows c interpretationFn it =
     (let raw = parsePositionRaw (pi_position it);
          l = number_or (dim_length (pi_dimensions it)) 0;
          w = number_or (dim_width (pi_dimensions it)) 0;
          h = number_or (dim_height (pi_dimensions it)) 0;
          (px, py, pz) = interpretationFn raw (l, w, h);
          minX = px; minY = py; minZ = pz;
          maxX = px + l; maxY = py + h; maxZ = pz + w
      in minX < - 0.000000001 \<or> minY < - 0.000000001 \<or> minZ < - 0.000000001
         \<or> maxX > containerLength c + 0.000000001
         \<or> maxY > containerHeight c + 0.000000001
         \<or> maxZ > containerWidth c + 0.000000001)"

fun validate_loop :: "container \<Rightarrow> transform \<Rightarrow> PackedItemData list \<Rightarrow> nat \<Rightarrow> nat" where
  "validate_loop c f [] overflowCount = overflowCount"
| "validate_loop c f (it # items) overflowCount =
     validate_loop c f items (if overflows c f it then overflowCount + 1 else overflowCount)"

record ValidationResult =
  v_ok :: bool
  v_overflowCount :: nat

definition validateInterpretation ::
  "container \<Rightarrow> PackedItemData list \<Rightarrow> transform \<Rightarrow> ValidationResult" where
  "validateInterpretation c items interpretationFn =
     (let overflowCount = validate_loop c interpretationFn items 0
      in \<lparr> v_ok = (overflowCount = 0), v_overflowCount = overflowCount \<rparr>)"

record result =
  r_name :: string
  r_fn :: transform
  r_ok :: bool
  r_overflowCount :: nat

definition results :: "container \<Rightarrow> PackedItemData list \<Rightarrow> result list" where
  "results c packedItemsData =
     map (\<lambda>it. let res = validateInterpretation c packedItemsData (i_fn it)
               in \<lparr> r_name = i_name it, r_fn = i_fn it, r_ok = v_ok res,
                    r_overflowCount = v_overflowCount res \<rparr>) interpretations"

definition okInterpretation :: "container \<Rightarrow> PackedItemData list \<Rightarrow> result option" where
  "okInterpretation c packedItemsData = find r_ok (results c packedItemsData)"

section \<open>Placed boxes\<close>

text \<open>
  One mesh of the scene: the arguments of its \<open>BoxGeometry\<close>, its position and its colour.
  The locals of the loop body that made it are recorded with it: the dimensions \<open>(l, w, h)\<close>
  and the minimum corner \<open>(px, py, pz)\<close> in container coordinates.
\<close>

record mesh =
  m_dims :: vec3
  m_min :: vec3
  m_geom :: vec3
  m_position :: vec3
  m_color :: string

definition colorList :: "string list" where
  "colorList = [''#58A6FF'', ''#6BCB77'', ''#FFD93D'', ''#FF6B6B'', ''#9D5CFF'', ''#F0A500'',
                ''#4D96FF'']"

definition make_mesh :: "container \<Rightarrow> vec3 \<Rightarrow> vec3 \<Rightarrow> string \<Rightarrow> mesh" where
  "make_mesh c dims corner col =
     (let (l, w, h) = dims; (px, py, pz) = corner; s = sceneScale c;
          centerX = (px + l / 2 - containerLength c / 2) * s;
          centerY = (py + h / 2) * s;
          centerZ = (pz + w / 2 - containerWidth c / 2) * s
      in \<lparr> m_dims = dims, m_min = corner, m_geom = (l * s, h * s, w * s),
           m_position = (centerX, centerY, centerZ), m_color = col \<rparr>)"

text \<open>The dimensions both placement loops use: \<open>Number(..) || 0.1\<close>.\<close>

definition placed_dims :: "PackedItemData \<Rightarrow> vec3" where
  "placed_dims item =
     (number_or (dim_length (pi_dimensions item)) 0.1,
      number_or (dim_width (pi_dimensions item)) 0.1,
      number_or (dim_height (pi_dimensions item)) 0.1)"

text \<open>The body of \<open>packedItemsData.forEach\<close> when an interpretation validated.\<close>

definition place_validated :: "container \<Rightarrow> transform \<Rightarrow> nat \<times> PackedItemData \<Rightarrow> mesh" where
  "place_validated c f p =
     (let (idx, item) = p; dims = placed_dims item;
          raw = parsePositionRaw (pi_position item)
      in make_mesh c dims (f raw dims) (colorList ! (idx mod length colorList)))"

text \<open>The body of \<open>packedItemsData.forEach\<close> on the clamped path.\<close>

definition place_clamped :: "container \<Rightarrow> nat \<times> PackedItemData \<Rightarrow> mesh" where
  "place_clamped c p =
     (let (idx, item) = p; (l, w, h) = placed_dims item;
          (r0, r1, r2) = parsePositionRaw (pi_position item);
          px = max 0 r0; py = max 0 r1; pz = max 0 r2;
          px = (if px + l > containerLength c then max 0 (containerLength c - l) else px);
          py = (if py + h > containerHeight c then max 0 (containerHeight c - h) else py);
          pz = (if pz + w > containerWidth c then max 0 (containerWidth c - w) else pz)
      in make_mesh c (l, w, h) (px, py, pz) (colorList ! (idx mod length colorList)))"

datatype console = Info string | Warn string "result list"

record resolution =
  chosen :: "string option"
  usedFallback :: bool
  res_boxes :: "mesh list"
  res_log :: "console list"

text \<open>The branch \<open>packedItemsData && packedItemsData.length > 0\<close> of the resolver.\<close>

definition resolve :: "container \<Rightarrow> PackedItemData list \<Rightarrow> resolution" where
  "resolve c packedItemsData =
     (case okInterpretation c packedItemsData of
        Some r \<Rightarrow>
          \<lparr> chosen = Some (r_name r), usedFallback = False,
            res_boxes = map (place_validated c (r_fn r)) (enumerate 0 packedItemsData),
            res_log = [Info (''[ThreeJS] Using API interpretation: '' @ r_name r)] \<rparr>
      | None \<Rightarrow>
          \<lparr> chosen = None, usedFallback = True,
            res_boxes = map (place_clamped c) (enumerate 0 packedItemsData),
            res_log = [Warn ''[ThreeJS] No interpretation placed all boxes inside container. Falling back to 'min-corner' and clamping overflowing boxes. Interpretation results:''
                     (results c packedItemsData)] \<rparr>)"

section \<open>Fallback greedy placement\<close>

text \<open>
  The same loop stands in both versions of the component. First the inst list is built
  by \<open>boxDimensions.forEach\<close> with an inner \<open>for\<close> loop that pushes \<open>qty\<close> copies.
\<close>

record inst =
  in_l :: real
  in_w :: real
  in_h :: real
  in_idx :: nat

definition qty :: "BoxDim \<Rightarrow> nat" where
  "qty b = nat (max 1 (floor (number_or (bd_quantity b) 1)))"

definition instance_of :: "nat \<Rightarrow> BoxDim \<Rightarrow> inst" where
  "instance_of ix b =
     \<lparr> in_l = convertToMeters (number_or (bd_length b) 0.1) (Some (bd_unit b)),
       in_w = convertToMeters (number_or (bd_width b) 0.1) (Some (bd_unit b)),
       in_h = convertToMeters (number_or (bd_height b) 0.1) (Some (bd_unit b)),
       in_idx = ix \<rparr>"

fun push_times :: "nat \<Rightarrow> inst \<Rightarrow> inst list \<Rightarrow> inst list" where
  "push_times 0 x instances = instances"
| "push_times (Suc n) x instances = push_times n x (instances @ [x])"

fun expand_loop :: "nat \<Rightarrow> BoxDim list \<Rightarrow> inst list \<Rightarrow> inst list" where
  "expand_loop ix [] instances = instances"
| "expand_loop ix (b # bs) instances =
     expand_loop (ix + 1) bs (push_times (qty b) (instance_of ix b) instances)"

definition instances_of :: "BoxDim list \<Rightarrow> inst list" where
  "instances_of boxDimensions = expand_loop 0 boxDimensions []"

record cursor =
  cursorX :: real
  cursorZ :: real
  layerHeight :: real

definition padding :: real where
  "padding = 0.01"

definition greedy_mesh :: "container \<Rightarrow> cursor \<Rightarrow> inst \<Rightarrow> mesh" where
  "greedy_mesh c st it =
     (let s = sceneScale c;
          centerX = (cursorX st + in_l it / 2 - containerLength c / 2) * s;
          centerY = (in_h it / 2) * s;
          centerZ = (cursorZ st + in_w it / 2 - containerWidth c / 2) * s
      in \<lparr> m_dims = (in_l it, in_w it, in_h it), m_min = (cursorX st, 0, cursorZ st),
           m_geom = (in_l it * s, in_h it * s, in_w it * s),
           m_position = (centerX, centerY, centerZ), m_color = ''#9DD3FF'' \<rparr>)"

text \<open>The wrap test at the head of the loop body.\<close>

definition wrap :: "container \<Rightarrow> cursor \<Rightarrow> inst \<Rightarrow> cursor" where
  "wrap c st it =
     (if cursorX st + in_l it > containerLength c
      then \<lparr> cursorX = 0, cursorZ = cursorZ st + (layerHeight st + padding), layerHeight = 0 \<rparr>
      else st)"

text \<open>The updates at the foot of the loop body.\<close>

definition advance :: "cursor \<Rightarrow> inst \<Rightarrow> cursor" where
  "advance st it =
     \<lparr> cursorX = cursorX st + (in_l it + padding), cursorZ = cursorZ st,
       layerHeight = max (layerHeight st) (in_w it) \<rparr>"

text \<open>\<open>for (const it of instances)\<close>; the \<open>break\<close> ends the loop with what was placed so far.\<close>

fun greedy_loop :: "container \<Rightarrow> cursor \<Rightarrow> inst list \<Rightarrow> mesh list" where
  "greedy_loop c st [] = []"
| "greedy_loop c st (it # rest) =
     (if cursorZ (wrap c st it) + in_w it > containerWidth c then []
      else greedy_mesh c (wrap c st it) it # greedy_loop c (advance (wrap c st it) it) rest)"

definition greedy_placement :: "container \<Rightarrow> BoxDim list \<Rightarrow> mesh list" where
  "greedy_placement c boxDimensions =
     greedy_loop c \<lparr> cursorX = 0, cursorZ = 0, layerHeight = 0 \<rparr> (instances_of boxDimensions)"

section \<open>The shipped component: clamped placement without a search\<close>

definition place_shipped :: "container \<Rightarrow> nat \<times> PackedItemData \<Rightarrow> mesh" where
  "place_shipped c p =
     (let (idx, item) = p; (l, w, h) = placed_dims item;
          (r0, r1, r2) = parsePositionRaw (pi_position item);
          px = max 0 (min r0 (containerLength c - l));
          py = max 0 (min r1 (containerHeight c - h));
          pz = max 0 (min r2 (containerWidth c - w))
      in make_mesh c (l, w, h) (px, py, pz) (colorList ! (idx mod length colorList)))"

definition createBoxesGroup ::
  "container \<Rightarrow> BoxDim list \<Rightarrow> PackedItemData list option \<Rightarrow> mesh list" where
  "createBoxesGroup c boxDimensions boxes =
     (case boxes of
        None \<Rightarrow> greedy_placement c boxDimensions
      | Some bs \<Rightarrow>
          if length bs > 0 then map (place_shipped c) (enumerate 0 bs)
          else greedy_placement c boxDimensions)"

section \<open>One render pass\<close>

record Props =
  p_containerDimensions :: ContainerDim
  p_boxDimensions :: "BoxDim list"
  p_maxInstances :: nat
  p_showGrid :: bool
  p_packedItemsData :: "PackedItemData list option"

record scene =
  s_container :: container
  s_sceneScale :: real
  s_chosen :: "string option"
  s_usedFallback :: bool
  s_boxes :: "mesh list"
  s_console :: "console list"

text \<open>
  The resolver version of the effect body, as far as it decides the boxes of the scene.
  \<open>s_usedFallback\<close> records that the clamping branch ran.
\<close>

definition render_resolver :: "Props \<Rightarrow> scene" where
  "render_resolver p =
     (let c = container_of (p_containerDimensions p);
          shelf = \<lparr> s_container = c, s_sceneScale = sceneScale c, s_chosen = None,
                    s_usedFallback = False,
                    s_boxes = greedy_placement c (p_boxDimensions p), s_console = [] \<rparr>
      in case p_packedItemsData p of
           None \<Rightarrow> shelf
         | Some items \<Rightarrow>
             if length items > 0
             then (let r = resolve c items
                   in \<lparr> s_container = c, s_sceneScale = sceneScale c, s_chosen = chosen r,
                        s_usedFallback = usedFallback r,
                        s_boxes = res_boxes r, s_console = res_log r \<rparr>)
             else shelf)"

text \<open>The shipped version of the effect body: \<open>createBoxesGroup(packedItemsData ?? null)\<close>.\<close>

definition render_shipped :: "Props \<Rightarrow> mesh list" where
  "render_shipped p =
     createBoxesGroup (container_of (p_containerDimensions p)) (p_boxDimensions p)
       (p_packedItemsData p)"

section \<open>Notions used to state the properties\<close>

text \<open>The overflow count the resolver computes for the \<open>k\<close>-th candidate (counted from 0).\<close>

definition overflowCount_of :: "container \<Rightarrow> PackedItemData list \<Rightarrow> nat \<Rightarrow> nat" where
  "overflowCount_of c items k =
     v_overflowCount (validateInterpretation c items (i_fn (interpretations ! k)))"

text \<open>
  The box a mesh occupies, in container coordinates, lies in
  \<open>[0, length] \<times> [0, height] \<times> [0, width]\<close> up to the tolerance \<open>1e-9\<close>.
\<close>

definition inside :: "container \<Rightarrow> mesh \<Rightarrow> bool" where
  "inside c m =
     (let (px, py, pz) = m_min m; (l, w, h) = m_dims m
      in - 0.000000001 \<le> px \<and> px + l \<le> containerLength c + 0.000000001
         \<and> - 0.000000001 \<le> py \<and> py + h \<le> containerHeight c + 0.000000001
         \<and> - 0.000000001 \<le> pz \<and> pz + w \<le> containerWidth c + 0.000000001)"

text \<open>
  The item's dimensions read by the validation loop (\<open>Number(..) || 0\<close>) are the ones the
  placement loop uses (\<open>Number(..) || 0.1\<close>): none of them is \<open>0\<close> or non-numeric.
\<close>

definition same_dims :: "PackedItemData \<Rightarrow> bool" where
  "same_dims item =
     (placed_dims item =
        (number_or (dim_length (pi_dimensions item)) 0,
         number_or (dim_width (pi_dimensions item)) 0,
         number_or (dim_height (pi_dimensions item)) 0))"

text \<open>
  Clamping one coordinate as the specification words it: into \<open>[0, containerDim - itemDim]\<close>,
  and to \<open>0\<close> when the item is larger than the container on that axis.
\<close>

definition clamp_axis :: "real \<Rightarrow> real \<Rightarrow> real \<Rightarrow> real" where
  "clamp_axis r itemDim containerDim =
     (if itemDim > containerDim then 0 else max 0 (min r (containerDim - itemDim)))"

text \<open>The instance list as the specification words it: \<open>quantity\<close> copies of each item, in input order.\<close>

definition expand_spec :: "BoxDim list \<Rightarrow> inst list" where
  "expand_spec boxDimensions =
     concat (map (\<lambda>(ix, b). replicate (qty b) (instance_of ix b)) (enumerate 0 boxDimensions))"

text \<open>
  An item with positive numeric dimensions whose raw position, read as a minimum corner,
  lies in \<open>[0, containerDim - itemDim]\<close> on each axis, with no tolerance used.
\<close>

definition exact_fit :: "container \<Rightarrow> PackedItemData \<Rightarrow> bool" where
  "exact_fit c item =
     (case (dim_length (pi_dimensions item), dim_width (pi_dimensions item),
            dim_height (pi_dimensions item), parsePositionRaw (pi_position item)) of
        (Num l, Num w, Num h, (r0, r1, r2)) \<Rightarrow>
          0 < l \<and> 0 < w \<and> 0 < h
          \<and> 0 \<le> r0 \<and> r0 \<le> containerLength c - l
          \<and> 0 \<le> r1 \<and> r1 \<le> containerHeight c - h
          \<and> 0 \<le> r2 \<and> r2 \<le> containerWidth c - w
      | _ \<Rightarrow> False)"

text \<open>
  The position of a mesh follows from its minimum corner and dimensions: centred on the
  length and width axes, measured from the floor on the height axis.
\<close>

definition scene_formula :: "container \<Rightarrow> real \<Rightarrow> mesh \<Rightarrow> bool" where
  "scene_formula c s m =
     (case (m_min m, m_dims m) of
        ((px, py, pz), (l, w, h)) \<Rightarrow>
          m_position m = ((px + l / 2 - containerLength c / 2) * s,
                          (py + h / 2) * s,
                          (pz + w / 2 - containerWidth c / 2) * s))"

section \<open>Concrete inputs\<close>

text \<open>A \<open>2 \<times> 2 \<times> 2\<close> m container with one \<open>1 \<times> 1 \<times> 1\<close> m item at raw position \<open>[0, 0, 0]\<close>.\<close>

definition cdA :: ContainerDim where
  "cdA = \<lparr> cd_length = Num 2, cd_width = Num 2, cd_height = Num 2, cd_unit = None \<rparr>"

definition itemA :: PackedItemData where
  "itemA = \<lparr> pi_name = ''a'',
             pi_position = PosArray [Some (Num 0), Some (Num 0), Some (Num 0)],
             pi_dimensions = \<lparr> dim_length = Num 1, dim_width = Num 1, dim_height = Num 1 \<rparr> \<rparr>"

definition propsA :: Props where
  "propsA = \<lparr> p_containerDimensions = cdA, p_boxDimensions = [], p_maxInstances = 1200,
              p_showGrid = False, p_packedItemsData = Some [itemA] \<rparr>"

definition cA :: container where
  "cA = \<lparr> containerLength = 2, containerWidth = 2, containerHeight = 2 \<rparr>"

text \<open>The same container with the item at raw position \<open>[5, 5, 5]\<close>: no candidate fits.\<close>

definition itemFar :: PackedItemData where
  "itemFar = \<lparr> pi_name = ''far'',
               pi_position = PosArray [Some (Num 5), Some (Num 5), Some (Num 5)],
               pi_dimensions = \<lparr> dim_length = Num 1, dim_width = Num 1, dim_height = Num 1 \<rparr> \<rparr>"

definition propsFar :: Props where
  "propsFar = \<lparr> p_containerDimensions = cdA, p_boxDimensions = [], p_maxInstances = 1200,
                p_showGrid = False, p_packedItemsData = Some [itemFar] \<rparr>"

text \<open>
  The same container with an item whose \<open>dimensions.length\<close> is \<open>0\<close>, at raw position
  \<open>[2, 0, 0]\<close>.
\<close>

definition itemZ :: PackedItemData where
  "itemZ = \<lparr> pi_name = ''z'',
             pi_position = PosArray [Some (Num 2), Some (Num 0), Some (Num 0)],
             pi_dimensions = \<lparr> dim_length = Num 0, dim_width = Num 1, dim_height = Num 1 \<rparr> \<rparr>"

definition propsZ :: Props where
  "propsZ = \<lparr> p_containerDimensions = cdA, p_boxDimensions = [], p_maxInstances = 1200,
              p_showGrid = False, p_packedItemsData = Some [itemZ] \<rparr>"

text \<open>A container whose length is given as \<open>1e-10\<close> m.\<close>

definition cdTiny :: ContainerDim where
  "cdTiny = \<lparr> cd_length = Num 0.0000000001, cd_width = Num 2, cd_height = Num 2,
               cd_unit = None \<rparr>"

text \<open>A container given in centimetres with length \<open>0\<close>, a negative width and a non-numeric height.\<close>

definition cdBad :: ContainerDim where
  "cdBad = \<lparr> cd_length = Num 0, cd_width = Num (- 3), cd_height = NaN, cd_unit = Some ''cm'' \<rparr>"

text \<open>The first input again, with other item specifications, instance budget and grid flag.\<close>

definition boxB :: BoxDim where
  "boxB = \<lparr> bd_length = Num 2, bd_width = Num 0.5, bd_height = Num 1, bd_weight = Num 1,
            bd_quantity = Num 1, bd_rotation = False, bd_unit = ''m'' \<rparr>"

definition propsA' :: Props where
  "propsA' = \<lparr> p_containerDimensions = cdA, p_boxDimensions = [boxB], p_maxInstances = 5,
               p_showGrid = True, p_packedItemsData = Some [itemA] \<rparr>"

text \<open>
  No packed-item data: a \<open>1 \<times> 1 \<times> 1\<close> container with a single \<open>2 \<times> 1 \<times> 1\<close> item
  (length 2, width 1), and the same container with a single item of length 2 and width 0.5.
\<close>

definition cdD :: ContainerDim where
  "cdD = \<lparr> cd_length = Num 1, cd_width = Num 1, cd_height = Num 1, cd_unit = None \<rparr>"

definition cD :: container where
  "cD = \<lparr> containerLength = 1, containerWidth = 1, containerHeight = 1 \<rparr>"

definition boxD :: BoxDim where
  "boxD = \<lparr> bd_length = Num 2, bd_width = Num 1, bd_height = Num 1, bd_weight = Num 1,
            bd_quantity = Num 1, bd_rotation = False, bd_unit = ''m'' \<rparr>"

definition propsD :: Props where
  "propsD = \<lparr> p_containerDimensions = cdD, p_boxDimensions = [boxD], p_maxInstances = 1200,
              p_showGrid = False, p_packedItemsData = None \<rparr>"

definition propsE :: Props where
  "propsE = \<lparr> p_containerDimensions = cdD, p_boxDimensions = [boxB], p_maxInstances = 1200,
              p_showGrid = False, p_packedItemsData = None \<rparr>"

section \<open>Auxiliary lemmas\<close>

lemma validate_loop_count:
  "validate_loop c f items n = n + length (filter (overflows c f) items)"
  by (induction items arbitrary: n) auto

lemma overflowCount_filter:
  "v_overflowCount (validateInterpretation c items f) = length (filter (overflows c f) items)"
  by (simp add: validateInterpretation_def validate_loop_count)

lemma v_ok_iff:
  "v_ok (validateInterpretation c items f) = (v_overflowCount (validateInterpretation c items f) = 0)"
  by (simp add: validateInterpretation_def Let_def)

lemma all_less_4: "(\<forall>k<4. P (k::nat)) = (P 0 \<and> P 1 \<and> P 2 \<and> P 3)"
proof -
  have "{k::nat. k < 4} = {0, 1, 2, 3}" by auto
  then have "(\<forall>k<4. P k) = (\<forall>k\<in>{0,1,2,3}. P k)" by blast
  then show ?thesis by simp
qed

lemma all_less_small:
  "(\<forall>j<(0::nat). P j) = True"
  "(\<forall>j<(1::nat). P j) = P 0"
  "(\<forall>j<(2::nat). P j) = (P 0 \<and> P 1)"
  "(\<forall>j<(3::nat). P j) = (P 0 \<and> P 1 \<and> P 2)"
proof -
  have "{j::nat. j < 2} = {0, 1}" "{j::nat. j < 3} = {0, 1, 2}" by auto
  then have "(\<forall>j<2. P j) = (\<forall>j\<in>{0,1}. P j)" "(\<forall>j<3. P j) = (\<forall>j\<in>{0,1,2}. P j)" by blast+
  then show "(\<forall>j<(2::nat). P j) = (P 0 \<and> P 1)" "(\<forall>j<(3::nat). P j) = (P 0 \<and> P 1 \<and> P 2)"
    by simp_all
qed simp_all

lemma results_unfold:
  "results c items =
     [ \<lparr> r_name = ''min-corner (x=length,z=width)'', r_fn = asMinCorner,
         r_ok = (overflowCount_of c items 0 = 0), r_overflowCount = overflowCount_of c items 0 \<rparr>,
       \<lparr> r_name = ''center (x=length,z=width)'', r_fn = asCenter,
         r_ok = (overflowCount_of c items 1 = 0), r_overflowCount = overflowCount_of c items 1 \<rparr>,
       \<lparr> r_name = ''min-corner swapped X/Z'', r_fn = asMinCornerSwapXZ,
         r_ok = (overflowCount_of c items 2 = 0), r_overflowCount = overflowCount_of c items 2 \<rparr>,
       \<lparr> r_name = ''center swapped X/Z'', r_fn = asCenterSwapXZ,
         r_ok = (overflowCount_of c items 3 = 0), r_overflowCount = overflowCount_of c items 3 \<rparr> ]"
  by (simp add: results_def interpretations_def overflowCount_of_def v_ok_iff Let_def)

lemma interpretations_nth:
  "interpretations ! 0 = \<lparr> i_fn = asMinCorner, i_name = ''min-corner (x=length,z=width)'' \<rparr>"
  "interpretations ! 1 = \<lparr> i_fn = asCenter, i_name = ''center (x=length,z=width)'' \<rparr>"
  "interpretations ! Suc 0 = \<lparr> i_fn = asCenter, i_name = ''center (x=length,z=width)'' \<rparr>"
  "interpretations ! 2 = \<lparr> i_fn = asMinCornerSwapXZ, i_name = ''min-corner swapped X/Z'' \<rparr>"
  "interpretations ! 3 = \<lparr> i_fn = asCenterSwapXZ, i_name = ''center swapped X/Z'' \<rparr>"
  by (simp_all add: interpretations_def)

lemma render_resolver_packed:
  assumes "p_packedItemsData p = Some items" "items \<noteq> []"
    and "c = container_of (p_containerDimensions p)"
  shows "render_resolver p =
           \<lparr> s_container = c, s_sceneScale = sceneScale c, s_chosen = chosen (resolve c items),
             s_usedFallback = usedFallback (resolve c items),
             s_boxes = res_boxes (resolve c items), s_console = res_log (resolve c items) \<rparr>"
  using assms by (simp add: render_resolver_def Let_def)

lemma resolve_cases:
  "resolve c items =
    (if overflowCount_of c items 0 = 0 then
       \<lparr> chosen = Some ''min-corner (x=length,z=width)'', usedFallback = False,
         res_boxes = map (place_validated c asMinCorner) (enumerate 0 items),
         res_log = [Info (''[ThreeJS] Using API interpretation: '' @ ''min-corner (x=length,z=width)'')] \<rparr>
     else if overflowCount_of c items 1 = 0 then
       \<lparr> chosen = Some ''center (x=length,z=width)'', usedFallback = False,
         res_boxes = map (place_validated c asCenter) (enumerate 0 items),
         res_log = [Info (''[ThreeJS] Using API interpretation: '' @ ''center (x=length,z=width)'')] \<rparr>
     else if overflowCount_of c items 2 = 0 then
       \<lparr> chosen = Some ''min-corner swapped X/Z'', usedFallback = False,
         res_boxes = map (place_validated c asMinCornerSwapXZ) (enumerate 0 items),
         res_log = [Info (''[ThreeJS] Using API interpretation: '' @ ''min-corner swapped X/Z'')] \<rparr>
     else if overflowCount_of c items 3 = 0 then
       \<lparr> chosen = Some ''center swapped X/Z'', usedFallback = False,
         res_boxes = map (place_validated c asCenterSwapXZ) (enumerate 0 items),
         res_log = [Info (''[ThreeJS] Using API interpretation: '' @ ''center swapped X/Z'')] \<rparr>
     else
       \<lparr> chosen = None, usedFallback = True,
         res_boxes = map (place_clamped c) (enumerate 0 items),
         res_log = [Warn ''[ThreeJS] No interpretation placed all boxes inside container. Falling back to 'min-corner' and clamping overflowing boxes. Interpretation results:''
                     (results c items)] \<rparr>)"
  unfolding resolve_def okInterpretation_def
  by (subst results_unfold) simp

lemma container_of_cdA: "container_of cdA = cA"
  by (simp add: container_of_def cdA_def cA_def contL_def contW_def contH_def convertToMeters_def)

lemma sceneScale_cA: "sceneScale cA = 4"
  by (simp add: sceneScale_def maxDim_def targetMax_def cA_def)

lemma overflowCount_single:
  "overflowCount_of c [it] k = (if overflows c (i_fn (interpretations ! k)) it then 1 else 0)"
  by (simp add: overflowCount_of_def validateInterpretation_def)

lemma overflows_A:
  "\<not> overflows cA asMinCorner itemA" "overflows cA asCenter itemA"
  "\<not> overflows cA asMinCornerSwapXZ itemA" "overflows cA asCenterSwapXZ itemA"
  by (simp_all add: overflows_def itemA_def array_component_def slot_def cA_def)

lemma clamp_source:
  "(if max 0 r + d > cd then max 0 (cd - d) else max 0 r) = clamp_axis r d cd"
  by (auto simp: clamp_axis_def max_def min_def)

lemma clamp_axis_bounds:
  "(d \<le> cd \<longrightarrow> 0 \<le> clamp_axis r d cd \<and> clamp_axis r d cd \<le> cd - d)
   \<and> (d > cd \<longrightarrow> clamp_axis r d cd = 0)"
  by (auto simp: clamp_axis_def)

lemma place_clamped_min:
  "m_min (place_clamped c (i, item)) =
     (case (placed_dims item, parsePositionRaw (pi_position item)) of
        ((l, w, h), (r0, r1, r2)) \<Rightarrow>
          (clamp_axis r0 l (containerLength c), clamp_axis r1 h (containerHeight c),
           clamp_axis r2 w (containerWidth c)))"
  by (simp add: place_clamped_def make_mesh_def Let_def clamp_source split: prod.splits)

lemma place_clamped_dims: "m_dims (place_clamped c (i, item)) = placed_dims item"
  by (simp add: place_clamped_def make_mesh_def Let_def split: prod.splits)

lemma nth_map_enumerate:
  "i < length xs \<Longrightarrow> map f (enumerate 0 xs) ! i = f (i, xs ! i)"
  by (simp add: nth_enumerate_eq)

lemma overflows_Far:
  "overflows cA asMinCorner itemFar" "overflows cA asCenter itemFar"
  "overflows cA asMinCornerSwapXZ itemFar" "overflows cA asCenterSwapXZ itemFar"
  by (simp_all add: overflows_def itemFar_def array_component_def slot_def cA_def)

lemma make_mesh_formula: "scene_formula c (sceneScale c) (make_mesh c dims corner col)"
  by (simp add: scene_formula_def make_mesh_def Let_def split: prod.splits)

lemma greedy_mesh_formula: "scene_formula c (sceneScale c) (greedy_mesh c st it)"
  by (simp add: scene_formula_def greedy_mesh_def Let_def)

lemma greedy_loop_formula:
  "m \<in> set (greedy_loop c st insts) \<Longrightarrow> scene_formula c (sceneScale c) m"
  by (induction c st insts rule: greedy_loop.induct)
     (auto simp: greedy_mesh_formula split: if_splits)

lemma place_validated_formula: "scene_formula c (sceneScale c) (place_validated c f q)"
  by (simp add: place_validated_def Let_def make_mesh_formula split: prod.splits)

lemma place_clamped_formula: "scene_formula c (sceneScale c) (place_clamped c q)"
  by (simp add: place_clamped_def Let_def make_mesh_formula split: prod.splits)

lemma resolve_formula:
  "m \<in> set (res_boxes (resolve c items)) \<Longrightarrow> scene_formula c (sceneScale c) m"
  by (auto simp: resolve_cases place_validated_formula place_clamped_formula split: if_splits)

lemma place_validated_itemA:
  "m_min (place_validated cA asMinCorner (0, itemA)) = (0, 0, 0)"
  "m_dims (place_validated cA asMinCorner (0, itemA)) = (1, 1, 1)"
  "m_position (place_validated cA asMinCorner (0, itemA)) = (- 2, 2, - 2)"
proof -
  have pd: "placed_dims itemA = (1, 1, 1)" by (simp add: placed_dims_def itemA_def)
  have raw: "parsePositionRaw (pi_position itemA) = (0, 0, 0)"
    by (simp add: itemA_def array_component_def slot_def)
  show "m_min (place_validated cA asMinCorner (0, itemA)) = (0, 0, 0)"
    "m_dims (place_validated cA asMinCorner (0, itemA)) = (1, 1, 1)"
    by (simp_all add: place_validated_def make_mesh_def pd raw Let_def)
  have "m_position (place_validated cA asMinCorner (0, itemA)) =
          ((0 + 1 / 2 - containerLength cA / 2) * 4, (0 + 1 / 2) * 4,
           (0 + 1 / 2 - containerWidth cA / 2) * 4)"
    by (simp add: place_validated_def make_mesh_def pd raw Let_def sceneScale_cA)
  then show "m_position (place_validated cA asMinCorner (0, itemA)) = (- 2, 2, - 2)"
    by (simp add: cA_def)
qed

lemma render_resolver_propsA:
  "render_resolver propsA =
     \<lparr> s_container = cA, s_sceneScale = 4, s_chosen = Some ''min-corner (x=length,z=width)'',
       s_usedFallback = False, s_boxes = [place_validated cA asMinCorner (0, itemA)],
       s_console = [Info (''[ThreeJS] Using API interpretation: '' @ ''min-corner (x=length,z=width)'')] \<rparr>"
proof -
  have h1: "p_packedItemsData propsA = Some [itemA]" by (simp add: propsA_def)
  have h2: "[itemA] \<noteq> []" by simp
  have h3: "cA = container_of (p_containerDimensions propsA)"
    by (simp add: propsA_def container_of_cdA)
  have o: "overflowCount_of cA [itemA] 0 = 0"
    by (simp add: overflowCount_single interpretations_nth overflows_A)
  show ?thesis
    unfolding render_resolver_packed [OF h1 h2 h3]
    using o by (simp add: resolve_cases sceneScale_cA enumerate_eq_zip)
qed

lemma convertToMeters_sign:
  "(convertToMeters v u \<le> 0) = (v \<le> 0)" "(0 < convertToMeters v u) = (0 < v)"
  by (auto simp: convertToMeters_def Let_def zero_less_mult_iff mult_le_0_iff split: option.splits)

lemma number_or_0_nonpos:
  "(number_or x 0 \<le> 0) = (case x of NaN \<Rightarrow> True | Num v \<Rightarrow> v \<le> 0)"
  by (cases x) auto

lemma maxDim_container_of_pos: "0 < maxDim (container_of cd)"
  by (simp add: maxDim_def container_of_def max_def)

lemma exact_fit_cases:
  assumes "exact_fit c item"
  obtains l w h r0 r1 r2 where
    "dim_length (pi_dimensions item) = Num l" "dim_width (pi_dimensions item) = Num w"
    "dim_height (pi_dimensions item) = Num h"
    "parsePositionRaw (pi_position item) = (r0, r1, r2)"
    "0 < l" "0 < w" "0 < h"
    "0 \<le> r0" "r0 \<le> containerLength c - l"
    "0 \<le> r1" "r1 \<le> containerHeight c - h"
    "0 \<le> r2" "r2 \<le> containerWidth c - w"
  using assms unfolding exact_fit_def
  by (auto split: jsnum.splits prod.splits)

lemma exact_fit_no_overflow:
  assumes "exact_fit c item"
  shows "\<not> overflows c asMinCorner item"
  using assms by (rule exact_fit_cases) (simp add: overflows_def)

lemma exact_fit_place:
  assumes "exact_fit c item"
  shows "place_validated c asMinCorner (i, item) = place_shipped c (i, item)"
  using assms
  by (rule exact_fit_cases)
     (simp add: place_validated_def place_shipped_def placed_dims_def Let_def)

lemma exact_fit_count:
  assumes "\<forall>it \<in> set items. exact_fit c it"
  shows "overflowCount_of c items 0 = 0"
  using assms
  by (simp add: overflowCount_of_def overflowCount_filter interpretations_nth
      exact_fit_no_overflow)

lemma snd_enumerate_mem: "q \<in> set (enumerate n xs) \<Longrightarrow> snd q \<in> set xs"
  by (metis enumerate_eq_zip set_zip_rightD prod.collapse)

lemma exact_fit_itemA: "exact_fit cA itemA"
  by (simp add: exact_fit_def itemA_def array_component_def slot_def cA_def)

lemma push_times_replicate: "push_times n x acc = acc @ replicate n x"
  by (induction n arbitrary: acc) (simp_all add: replicate_app_Cons_same)

lemma expand_loop_concat:
  "expand_loop ix bds acc =
     acc @ concat (map (\<lambda>(i, b). replicate (qty b) (instance_of i b)) (enumerate ix bds))"
  by (induction bds arbitrary: ix acc) (simp_all add: push_times_replicate)

lemma instances_of_spec: "instances_of bds = expand_spec bds"
  by (simp add: instances_of_def expand_spec_def expand_loop_concat)

lemma qty_positive_integer: "1 \<le> n \<Longrightarrow> bd_quantity b = Num (real n) \<Longrightarrow> qty b = n"
  by (simp add: qty_def)

lemma greedy_loop_length: "length (greedy_loop c st insts) \<le> length insts"
  by (induction c st insts rule: greedy_loop.induct) auto

lemma greedy_loop_prefix:
  "map m_dims (greedy_loop c st insts) =
     take (length (greedy_loop c st insts)) (map (\<lambda>i. (in_l i, in_w i, in_h i)) insts)"
  by (induction c st insts rule: greedy_loop.induct) (auto simp: greedy_mesh_def Let_def)

lemma container_of_cdD: "container_of cdD = cD"
  by (simp add: container_of_def cdD_def cD_def contL_def contW_def contH_def convertToMeters_def)

lemma instances_boxD:
  "instances_of [boxD] = [\<lparr> in_l = 2, in_w = 1, in_h = 1, in_idx = 0 \<rparr>]"
  by (simp add: instances_of_def qty_def instance_of_def boxD_def convertToMeters_def)

lemma instances_boxB:
  "instances_of [boxB] = [\<lparr> in_l = 2, in_w = 0.5, in_h = 1, in_idx = 0 \<rparr>]"
  by (simp add: instances_of_def qty_def instance_of_def boxB_def convertToMeters_def)

lemma greedy_placement_D: "greedy_placement cD [boxD] = []"
  by (simp add: greedy_placement_def instances_boxD wrap_def padding_def cD_def)

lemma greedy_placement_E:
  "greedy_placement cD [boxB] =
     [greedy_mesh cD \<lparr> cursorX = 0, cursorZ = 0.01, layerHeight = 0 \<rparr>
        \<lparr> in_l = 2, in_w = 0.5, in_h = 1, in_idx = 0 \<rparr>]"
  by (simp add: greedy_placement_def instances_boxB wrap_def padding_def cD_def)

lemma render_resolver_None:
  "p_packedItemsData p = None \<Longrightarrow>
     s_boxes (render_resolver p) = greedy_placement (container_of (p_containerDimensions p)) (p_boxDimensions p)
     \<and> s_container (render_resolver p) = container_of (p_containerDimensions p)"
  by (simp add: render_resolver_def Let_def)

lemma greedy_loop_width_inv:
  "0 \<le> cursorZ st \<Longrightarrow> 0 \<le> layerHeight st \<Longrightarrow> m \<in> set (greedy_loop c st insts) \<Longrightarrow>
     (case (m_min m, m_dims m) of
        ((x, y, z), (l, w, h)) \<Rightarrow> 0 \<le> z \<and> z + w \<le> containerWidth c)"
proof (induction c st insts rule: greedy_loop.induct)
  case (1 c st)
  then show ?case by simp
next
  case (2 c st it rest)
  have wz: "0 \<le> cursorZ (wrap c st it)" "0 \<le> layerHeight (wrap c st it)"
    using "2.prems"(1,2) by (simp_all add: wrap_def padding_def)
  have az: "0 \<le> cursorZ (advance (wrap c st it) it)" "0 \<le> layerHeight (advance (wrap c st it) it)"
    using wz by (simp_all add: advance_def)
  show ?case
  proof (cases "cursorZ (wrap c st it) + in_w it > containerWidth c")
    case True
    with "2.prems"(3) show ?thesis by simp
  next
    case False
    with "2.prems"(3) have "m = greedy_mesh c (wrap c st it) it
        \<or> m \<in> set (greedy_loop c (advance (wrap c st it) it) rest)"
      by simp
    then show ?thesis
    proof
      assume "m = greedy_mesh c (wrap c st it) it"
      with False wz show ?thesis by (simp add: greedy_mesh_def Let_def)
    next
      assume "m \<in> set (greedy_loop c (advance (wrap c st it) it) rest)"
      with "2.IH" [OF False az] show ?thesis .
    qed
  qed
qed

lemma no_overflow_inside:
  assumes "\<not> overflows c f item" and "same_dims item"
  shows "inside c (place_validated c f (i, item))"
proof -
  obtain px py pz where f: "f (parsePositionRaw (pi_position item)) (placed_dims item) = (px, py, pz)"
    by (cases "f (parsePositionRaw (pi_position item)) (placed_dims item)")
  obtain l w h where d: "placed_dims item = (l, w, h)" by (cases "placed_dims item")
  from assms(2) d have v: "number_or (dim_length (pi_dimensions item)) 0 = l"
    "number_or (dim_width (pi_dimensions item)) 0 = w"
    "number_or (dim_height (pi_dimensions item)) 0 = h"
    by (simp_all add: same_dims_def)
  from assms(1) have "\<not> (px < - 0.000000001 \<or> py < - 0.000000001 \<or> pz < - 0.000000001
         \<or> px + l > containerLength c + 0.000000001
         \<or> py + h > containerHeight c + 0.000000001
         \<or> pz + w > containerWidth c + 0.000000001)"
    unfolding overflows_def Let_def v using f d by simp
  then show ?thesis
    unfolding inside_def place_validated_def make_mesh_def Let_def using f d by simp
qed

lemma overflowCount_zero:
  "overflowCount_of c items k = 0 \<Longrightarrow> it \<in> set items \<Longrightarrow>
     \<not> overflows c (i_fn (interpretations ! k)) it"
  by (auto simp: overflowCount_of_def overflowCount_filter filter_empty_conv)

lemma validated_boxes_inside:
  assumes "p_packedItemsData p = Some items" and "items \<noteq> []"
    and "c = container_of (p_containerDimensions p)"
    and "\<not> s_usedFallback (render_resolver p)"
    and "\<forall>it \<in> set items. same_dims it"
    and "m \<in> set (s_boxes (render_resolver p))"
  shows "inside c m"
proof -
  note rr = render_resolver_packed [OF assms(1-3)]
  have each: "\<And>k. overflowCount_of c items k = 0 \<Longrightarrow>
      m \<in> set (map (place_validated c (i_fn (interpretations ! k))) (enumerate 0 items)) \<Longrightarrow>
      inside c m"
  proof -
    fix k assume o: "overflowCount_of c items k = 0"
      and "m \<in> set (map (place_validated c (i_fn (interpretations ! k))) (enumerate 0 items))"
    then obtain q where q: "q \<in> set (enumerate 0 items)"
      and m: "m = place_validated c (i_fn (interpretations ! k)) q"
      by auto
    from q have mem: "snd q \<in> set items" by (rule snd_enumerate_mem)
    with assms(5) have sd: "same_dims (snd q)" by simp
    from overflowCount_zero [OF o mem] sd
    have "inside c (place_validated c (i_fn (interpretations ! k)) (fst q, snd q))"
      by (rule no_overflow_inside)
    with m show "inside c m" by simp
  qed
  from assms(4,6) show ?thesis
    unfolding rr
    using each [of 0] each [of 1] each [of 2] each [of 3]
    by (simp add: resolve_cases interpretations_nth split: if_splits)
qed

section \<open>Theorems\<close>

text \<open>
  C1. For a non-empty packed-item list the resolver evaluates the four candidates in the
  order min-corner, center, min-corner swapped, center swapped, and selects the first one
  whose overflow count is zero: candidate \<open>k\<close> is the chosen one exactly when its count is
  zero and every earlier count is not, and the boxes are then placed with its transform.
  In particular, when candidates 1 and 3 both validate, candidate 1 is chosen.
\<close>

theorem resolver_first_clean_candidate:
  assumes "p_packedItemsData p = Some items" and "items \<noteq> []"
    and "c = container_of (p_containerDimensions p)"
  shows "map i_fn interpretations = [asMinCorner, asCenter, asMinCornerSwapXZ, asCenterSwapXZ]
    \<and> map r_overflowCount (results c items) = map (overflowCount_of c items) [0, 1, 2, 3]
    \<and> (\<forall>k<4. s_chosen (render_resolver p) = Some (i_name (interpretations ! k))
              \<longleftrightarrow> overflowCount_of c items k = 0 \<and> (\<forall>j<k. overflowCount_of c items j \<noteq> 0))
    \<and> (\<forall>k<4. s_chosen (render_resolver p) = Some (i_name (interpretations ! k))
              \<longrightarrow> s_boxes (render_resolver p)
                    = map (place_validated c (i_fn (interpretations ! k))) (enumerate 0 items))
    \<and> (overflowCount_of c items 0 = 0 \<and> overflowCount_of c items 2 = 0
          \<longrightarrow> s_chosen (render_resolver p) = Some (i_name (interpretations ! 0))
              \<and> s_boxes (render_resolver p) = map (place_validated c asMinCorner) (enumerate 0 items))"
proof -
  note rr = render_resolver_packed [OF assms]
  have a: "map i_fn interpretations = [asMinCorner, asCenter, asMinCornerSwapXZ, asCenterSwapXZ]"
    by (simp add: interpretations_def)
  have b: "map r_overflowCount (results c items) = map (overflowCount_of c items) [0, 1, 2, 3]"
    by (simp add: results_unfold)
  have c1: "\<forall>k<4. s_chosen (render_resolver p) = Some (i_name (interpretations ! k))
              \<longleftrightarrow> overflowCount_of c items k = 0 \<and> (\<forall>j<k. overflowCount_of c items j \<noteq> 0)"
    unfolding all_less_4 rr
    by (simp add: resolve_cases interpretations_nth all_less_small)
  have d: "\<forall>k<4. s_chosen (render_resolver p) = Some (i_name (interpretations ! k))
              \<longrightarrow> s_boxes (render_resolver p)
                    = map (place_validated c (i_fn (interpretations ! k))) (enumerate 0 items)"
    unfolding all_less_4 rr
    by (simp add: resolve_cases interpretations_nth)
  have e: "overflowCount_of c items 0 = 0 \<and> overflowCount_of c items 2 = 0
          \<longrightarrow> s_chosen (render_resolver p) = Some (i_name (interpretations ! 0))
              \<and> s_boxes (render_resolver p) = map (place_validated c asMinCorner) (enumerate 0 items)"
    unfolding rr by (simp add: resolve_cases interpretations_nth)
  from a b c1 d e show ?thesis by blast
qed

text \<open>
  The hypotheses of C1 hold for the \<open>2 \<times> 2 \<times> 2\<close> container with one
  unit item at the origin: candidates 1 and 3 validate, candidate 2 does not, and candidate 1
  is chosen.
\<close>

theorem resolver_first_clean_candidate_witness:
  "p_packedItemsData propsA = Some [itemA] \<and> [itemA] \<noteq> []
   \<and> cA = container_of (p_containerDimensions propsA)
   \<and> overflowCount_of cA [itemA] 0 = 0 \<and> overflowCount_of cA [itemA] 1 \<noteq> 0
   \<and> overflowCount_of cA [itemA] 2 = 0
   \<and> s_chosen (render_resolver propsA) = Some ''min-corner (x=length,z=width)''"
proof -
  have h1: "p_packedItemsData propsA = Some [itemA]" by (simp add: propsA_def)
  have h2: "[itemA] \<noteq> []" by simp
  have h3: "cA = container_of (p_containerDimensions propsA)"
    by (simp add: propsA_def container_of_cdA)
  have o: "overflowCount_of cA [itemA] 0 = 0" "overflowCount_of cA [itemA] 1 \<noteq> 0"
    "overflowCount_of cA [itemA] 2 = 0"
    by (simp_all add: overflowCount_single interpretations_nth overflows_A)
  from resolver_first_clean_candidate [OF h1 h2 h3] o
  have "s_chosen (render_resolver propsA) = Some (i_name (interpretations ! 0))" by blast
  with h1 h2 h3 o show ?thesis by (simp add: interpretations_nth)
qed

text \<open>
  C2. Containment of every placed box on the validated path does not hold on the code: the
  validation loop reads a dimension as \<open>Number(..) || 0\<close> while the placement loop reads it
  as \<open>Number(..) || 0.1\<close>. With a \<open>2 \<times> 2 \<times> 2\<close> container and one item of length \<open>0\<close> at
  raw position \<open>[2, 0, 0]\<close>, candidate 1 validates with no overflow, the clamping branch is
  not taken, and the box placed spans \<open>[2, 2.1]\<close> on the length axis, outside the container
  by more than the tolerance.
\<close>

theorem validated_box_outside_container:
  "s_usedFallback (render_resolver propsZ) = False
   \<and> s_chosen (render_resolver propsZ) = Some ''min-corner (x=length,z=width)''
   \<and> s_container (render_resolver propsZ) = cA
   \<and> map m_min (s_boxes (render_resolver propsZ)) = [(2, 0, 0)]
   \<and> map m_dims (s_boxes (render_resolver propsZ)) = [(0.1, 1, 1)]
   \<and> map (inside (s_container (render_resolver propsZ))) (s_boxes (render_resolver propsZ)) = [False]"
proof -
  have h1: "p_packedItemsData propsZ = Some [itemZ]" by (simp add: propsZ_def)
  have h2: "[itemZ] \<noteq> []" by simp
  have h3: "cA = container_of (p_containerDimensions propsZ)"
    by (simp add: propsZ_def container_of_cdA)
  have o: "overflowCount_of cA [itemZ] 0 = 0"
    by (simp add: overflowCount_single interpretations_nth overflows_def itemZ_def
        array_component_def slot_def cA_def)
  have pd: "placed_dims itemZ = (0.1, 1, 1)" by (simp add: placed_dims_def itemZ_def)
  have raw: "parsePositionRaw (pi_position itemZ) = (2, 0, 0)"
    by (simp add: itemZ_def array_component_def slot_def)
  have bx: "res_boxes (resolve cA [itemZ]) = [place_validated cA asMinCorner (0, itemZ)]"
    using o by (simp add: resolve_cases enumerate_eq_zip)
  have m: "m_min (place_validated cA asMinCorner (0, itemZ)) = (2, 0, 0)"
    "m_dims (place_validated cA asMinCorner (0, itemZ)) = (0.1, 1, 1)"
    by (simp_all add: place_validated_def make_mesh_def pd raw Let_def)
  have ins: "\<not> inside cA (place_validated cA asMinCorner (0, itemZ))"
    unfolding inside_def m by (simp add: cA_def)
  show ?thesis
    unfolding render_resolver_packed [OF h1 h2 h3]
    using o by (simp add: bx m ins resolve_cases)
qed

text \<open>
  C3. For a non-empty packed-item list the clamping branch runs exactly when none of the
  four candidates has overflow count zero. On that branch the only output besides the boxes
  is a warning that carries the per-candidate results; every item is read under candidate 1
  (the raw triple as minimum corner) and its corner is clamped per axis: it lies in
  \<open>[0, containerDim - itemDim]\<close> when the item fits on that axis and is \<open>0\<close> when the
  item is larger than the container. The item dimensions are the ones the branch places
  (\<open>Number(..) || 0.1\<close>).
\<close>

theorem clamped_fallback_path:
  assumes "p_packedItemsData p = Some items" and "items \<noteq> []"
    and "c = container_of (p_containerDimensions p)"
  shows "(s_usedFallback (render_resolver p) \<longleftrightarrow> (\<forall>k<4. overflowCount_of c items k \<noteq> 0))
    \<and> (s_usedFallback (render_resolver p) \<longrightarrow>
          (\<exists>msg. s_console (render_resolver p) = [Warn msg (results c items)])
          \<and> map r_overflowCount (results c items) = map (overflowCount_of c items) [0, 1, 2, 3]
          \<and> length (s_boxes (render_resolver p)) = length items
          \<and> (\<forall>i<length items.
                case (placed_dims (items ! i),
                      asMinCorner (parsePositionRaw (pi_position (items ! i))) (placed_dims (items ! i)),
                      m_min (s_boxes (render_resolver p) ! i)) of
                  ((l, w, h), (r0, r1, r2), (px, py, pz)) \<Rightarrow>
                    m_dims (s_boxes (render_resolver p) ! i) = (l, w, h)
                    \<and> px = clamp_axis r0 l (containerLength c)
                    \<and> py = clamp_axis r1 h (containerHeight c)
                    \<and> pz = clamp_axis r2 w (containerWidth c)
                    \<and> (l \<le> containerLength c \<longrightarrow> 0 \<le> px \<and> px \<le> containerLength c - l)
                    \<and> (l > containerLength c \<longrightarrow> px = 0)
                    \<and> (h \<le> containerHeight c \<longrightarrow> 0 \<le> py \<and> py \<le> containerHeight c - h)
                    \<and> (h > containerHeight c \<longrightarrow> py = 0)
                    \<and> (w \<le> containerWidth c \<longrightarrow> 0 \<le> pz \<and> pz \<le> containerWidth c - w)
                    \<and> (w > containerWidth c \<longrightarrow> pz = 0)))"
proof (intro conjI impI)
  note rr = render_resolver_packed [OF assms]
  show a: "s_usedFallback (render_resolver p) \<longleftrightarrow> (\<forall>k<4. overflowCount_of c items k \<noteq> 0)"
    unfolding all_less_4 rr by (simp add: resolve_cases)
  show "map r_overflowCount (results c items) = map (overflowCount_of c items) [0, 1, 2, 3]"
    by (simp add: results_unfold)
  assume fb: "s_usedFallback (render_resolver p)"
  then have none: "overflowCount_of c items 0 \<noteq> 0" "overflowCount_of c items 1 \<noteq> 0"
    "overflowCount_of c items 2 \<noteq> 0" "overflowCount_of c items 3 \<noteq> 0"
    using a by (simp_all add: all_less_4)
  have res: "resolve c items =
     \<lparr> chosen = None, usedFallback = True,
       res_boxes = map (place_clamped c) (enumerate 0 items),
       res_log = [Warn ''[ThreeJS] No interpretation placed all boxes inside container. Falling back to 'min-corner' and clamping overflowing boxes. Interpretation results:''
                   (results c items)] \<rparr>"
    using none by (simp add: resolve_cases)
  have bx: "s_boxes (render_resolver p) = map (place_clamped c) (enumerate 0 items)"
    unfolding rr by (simp add: res)
  show "\<exists>msg. s_console (render_resolver p) = [Warn msg (results c items)]"
    unfolding rr by (simp add: res)
  show "length (s_boxes (render_resolver p)) = length items"
    by (simp add: bx)
  show "\<forall>i<length items.
              case (placed_dims (items ! i),
                    asMinCorner (parsePositionRaw (pi_position (items ! i))) (placed_dims (items ! i)),
                    m_min (s_boxes (render_resolver p) ! i)) of
                ((l, w, h), (r0, r1, r2), (px, py, pz)) \<Rightarrow>
                  m_dims (s_boxes (render_resolver p) ! i) = (l, w, h)
                  \<and> px = clamp_axis r0 l (containerLength c)
                  \<and> py = clamp_axis r1 h (containerHeight c)
                  \<and> pz = clamp_axis r2 w (containerWidth c)
                  \<and> (l \<le> containerLength c \<longrightarrow> 0 \<le> px \<and> px \<le> containerLength c - l)
                  \<and> (l > containerLength c \<longrightarrow> px = 0)
                  \<and> (h \<le> containerHeight c \<longrightarrow> 0 \<le> py \<and> py \<le> containerHeight c - h)
                  \<and> (h > containerHeight c \<longrightarrow> py = 0)
                  \<and> (w \<le> containerWidth c \<longrightarrow> 0 \<le> pz \<and> pz \<le> containerWidth c - w)
                  \<and> (w > containerWidth c \<longrightarrow> pz = 0)"
  proof (intro allI impI)
    fix i assume i: "i < length items"
    obtain l w h where d: "placed_dims (items ! i) = (l, w, h)" by (cases "placed_dims (items ! i)")
    obtain r0 r1 r2 where r: "parsePositionRaw (pi_position (items ! i)) = (r0, r1, r2)"
      by (cases "parsePositionRaw (pi_position (items ! i))")
    have m: "m_min (s_boxes (render_resolver p) ! i) =
               (clamp_axis r0 l (containerLength c), clamp_axis r1 h (containerHeight c),
                clamp_axis r2 w (containerWidth c))"
      by (simp add: bx nth_map_enumerate [OF i] place_clamped_min d r)
    have dm: "m_dims (s_boxes (render_resolver p) ! i) = (l, w, h)"
      by (simp add: bx nth_map_enumerate [OF i] place_clamped_dims d)
    have bnd: "(l \<le> containerLength c \<longrightarrow> 0 \<le> clamp_axis r0 l (containerLength c)
                  \<and> clamp_axis r0 l (containerLength c) \<le> containerLength c - l)
                \<and> (l > containerLength c \<longrightarrow> clamp_axis r0 l (containerLength c) = 0)
                \<and> (h \<le> containerHeight c \<longrightarrow> 0 \<le> clamp_axis r1 h (containerHeight c)
                  \<and> clamp_axis r1 h (containerHeight c) \<le> containerHeight c - h)
                \<and> (h > containerHeight c \<longrightarrow> clamp_axis r1 h (containerHeight c) = 0)
                \<and> (w \<le> containerWidth c \<longrightarrow> 0 \<le> clamp_axis r2 w (containerWidth c)
                  \<and> clamp_axis r2 w (containerWidth c) \<le> containerWidth c - w)
                \<and> (w > containerWidth c \<longrightarrow> clamp_axis r2 w (containerWidth c) = 0)"
      using clamp_axis_bounds [of l "containerLength c" r0]
        clamp_axis_bounds [of h "containerHeight c" r1]
        clamp_axis_bounds [of w "containerWidth c" r2]
      by blast
    show "case (placed_dims (items ! i),
                    asMinCorner (parsePositionRaw (pi_position (items ! i))) (placed_dims (items ! i)),
                    m_min (s_boxes (render_resolver p) ! i)) of
                ((l, w, h), (r0, r1, r2), (px, py, pz)) \<Rightarrow>
                  m_dims (s_boxes (render_resolver p) ! i) = (l, w, h)
                  \<and> px = clamp_axis r0 l (containerLength c)
                  \<and> py = clamp_axis r1 h (containerHeight c)
                  \<and> pz = clamp_axis r2 w (containerWidth c)
                  \<and> (l \<le> containerLength c \<longrightarrow> 0 \<le> px \<and> px \<le> containerLength c - l)
                  \<and> (l > containerLength c \<longrightarrow> px = 0)
                  \<and> (h \<le> containerHeight c \<longrightarrow> 0 \<le> py \<and> py \<le> containerHeight c - h)
                  \<and> (h > containerHeight c \<longrightarrow> py = 0)
                  \<and> (w \<le> containerWidth c \<longrightarrow> 0 \<le> pz \<and> pz \<le> containerWidth c - w)
                  \<and> (w > containerWidth c \<longrightarrow> pz = 0)"
      unfolding d r m dm asMinCorner.simps prod.case using bnd by blast
  qed
qed

text \<open>
  The hypotheses of C3 hold for the item at \<open>[5, 5, 5]\<close>: every candidate
  overflows, the clamping branch runs and the corner becomes \<open>(1, 1, 1)\<close>.
\<close>

theorem clamped_fallback_path_witness:
  "p_packedItemsData propsFar = Some [itemFar] \<and> [itemFar] \<noteq> []
   \<and> cA = container_of (p_containerDimensions propsFar)
   \<and> overflowCount_of cA [itemFar] 0 \<noteq> 0 \<and> overflowCount_of cA [itemFar] 1 \<noteq> 0
   \<and> overflowCount_of cA [itemFar] 2 \<noteq> 0 \<and> overflowCount_of cA [itemFar] 3 \<noteq> 0
   \<and> s_usedFallback (render_resolver propsFar)
   \<and> (0::nat) < length [itemFar]
   \<and> placed_dims itemFar = (1, 1, 1)
   \<and> m_min (s_boxes (render_resolver propsFar) ! 0) = (1, 1, 1)"
proof -
  have h1: "p_packedItemsData propsFar = Some [itemFar]" by (simp add: propsFar_def)
  have h2: "[itemFar] \<noteq> []" by simp
  have h3: "cA = container_of (p_containerDimensions propsFar)"
    by (simp add: propsFar_def container_of_cdA)
  have o: "\<forall>k<4. overflowCount_of cA [itemFar] k \<noteq> 0"
    unfolding all_less_4
    by (simp add: overflowCount_single interpretations_nth overflows_Far)
  note t = clamped_fallback_path [OF h1 h2 h3]
  from t o have fb: "s_usedFallback (render_resolver propsFar)" by blast
  from t fb have each: "\<forall>i<length [itemFar].
                case (placed_dims ([itemFar] ! i),
                      asMinCorner (parsePositionRaw (pi_position ([itemFar] ! i))) (placed_dims ([itemFar] ! i)),
                      m_min (s_boxes (render_resolver propsFar) ! i)) of
                  ((l, w, h), (r0, r1, r2), (px, py, pz)) \<Rightarrow>
                    m_dims (s_boxes (render_resolver propsFar) ! i) = (l, w, h)
                    \<and> px = clamp_axis r0 l (containerLength cA)
                    \<and> py = clamp_axis r1 h (containerHeight cA)
                    \<and> pz = clamp_axis r2 w (containerWidth cA)
                    \<and> (l \<le> containerLength cA \<longrightarrow> 0 \<le> px \<and> px \<le> containerLength cA - l)
                    \<and> (l > containerLength cA \<longrightarrow> px = 0)
                    \<and> (h \<le> containerHeight cA \<longrightarrow> 0 \<le> py \<and> py \<le> containerHeight cA - h)
                    \<and> (h > containerHeight cA \<longrightarrow> py = 0)
                    \<and> (w \<le> containerWidth cA \<longrightarrow> 0 \<le> pz \<and> pz \<le> containerWidth cA - w)
                    \<and> (w > containerWidth cA \<longrightarrow> pz = 0)"
    by (elim conjE impE) assumption
  have pd: "placed_dims itemFar = (1, 1, 1)" by (simp add: placed_dims_def itemFar_def)
  have raw: "parsePositionRaw (pi_position itemFar) = (5, 5, 5)"
    by (simp add: itemFar_def array_component_def slot_def)
  have cl: "clamp_axis 5 1 2 = 1" by (simp add: clamp_axis_def)
  from each have "m_min (s_boxes (render_resolver propsFar) ! 0) = (1, 1, 1)"
    by (cases "m_min (s_boxes (render_resolver propsFar) ! 0)") (simp add: pd raw cl cA_def)
  with h1 h2 h3 o fb pd show ?thesis by (simp add: all_less_4)
qed

text \<open>
  C4. With no packed-item data the instance list is \<open>quantity\<close> copies of each item in input
  order, and the loop treats each instance in turn: when \<open>cursorX + length\<close> exceeds the
  container length it sets \<open>cursorX\<close> to 0, adds \<open>layerHeight + 0.01\<close> to \<open>cursorZ\<close> and sets
  \<open>layerHeight\<close> to 0; when \<open>cursorZ + width\<close> then exceeds the container width it stops
  and the remaining instances are dropped, the result being the boxes placed so far;
  otherwise the instance is placed with minimum corner \<open>(cursorX, 0, cursorZ)\<close>, \<open>cursorX\<close>
  grows by \<open>length + 0.01\<close> and \<open>layerHeight\<close> becomes \<open>max(layerHeight, width)\<close>. The
  boxes placed are those of a prefix of the instance list. For a \<open>1 \<times> 1 \<times> 1\<close> container and
  one \<open>2 \<times> 1 \<times> 1\<close> item no box is placed, and the pass returns a scene.
\<close>

theorem shelf_packer_algorithm:
  "instances_of bds = expand_spec bds
   \<and> (1 \<le> n \<and> bd_quantity b = Num (real n) \<longrightarrow> qty b = n)
   \<and> (p_packedItemsData p = None \<or> p_packedItemsData p = Some [] \<longrightarrow>
        s_boxes (render_resolver p) =
          greedy_loop (s_container (render_resolver p))
            \<lparr> cursorX = 0, cursorZ = 0, layerHeight = 0 \<rparr> (expand_spec (p_boxDimensions p)))
   \<and> greedy_loop c st [] = []
   \<and> (let st' = (if cursorX st + in_l it > containerLength c
                  then \<lparr> cursorX = 0, cursorZ = cursorZ st + layerHeight st + 0.01, layerHeight = 0 \<rparr>
                  else st)
       in (cursorZ st' + in_w it > containerWidth c \<longrightarrow> greedy_loop c st (it # rest) = [])
        \<and> (\<not> cursorZ st' + in_w it > containerWidth c \<longrightarrow>
             greedy_loop c st (it # rest) =
               greedy_mesh c st' it
               # greedy_loop c \<lparr> cursorX = cursorX st' + in_l it + 0.01, cursorZ = cursorZ st',
                                 layerHeight = max (layerHeight st') (in_w it) \<rparr> rest
             \<and> m_min (greedy_mesh c st' it) = (cursorX st', 0, cursorZ st')
             \<and> m_dims (greedy_mesh c st' it) = (in_l it, in_w it, in_h it)))
   \<and> length (greedy_loop c st insts) \<le> length insts
   \<and> map m_dims (greedy_loop c st insts)
        = take (length (greedy_loop c st insts)) (map (\<lambda>i. (in_l i, in_w i, in_h i)) insts)
   \<and> s_container (render_resolver propsD) = cD
   \<and> s_boxes (render_resolver propsD) = []
   \<and> render_shipped propsD = []"
proof -
  have w: "wrap c st it = (if cursorX st + in_l it > containerLength c
                  then \<lparr> cursorX = 0, cursorZ = cursorZ st + layerHeight st + 0.01, layerHeight = 0 \<rparr>
                  else st)"
    by (simp add: wrap_def padding_def add.assoc)
  have a: "\<And>s. advance s it = \<lparr> cursorX = cursorX s + in_l it + 0.01, cursorZ = cursorZ s,
                                 layerHeight = max (layerHeight s) (in_w it) \<rparr>"
    by (simp add: advance_def padding_def add.assoc)
  have step: "(let st' = (if cursorX st + in_l it > containerLength c
                  then \<lparr> cursorX = 0, cursorZ = cursorZ st + layerHeight st + 0.01, layerHeight = 0 \<rparr>
                  else st)
       in (cursorZ st' + in_w it > containerWidth c \<longrightarrow> greedy_loop c st (it # rest) = [])
        \<and> (\<not> cursorZ st' + in_w it > containerWidth c \<longrightarrow>
             greedy_loop c st (it # rest) =
               greedy_mesh c st' it
               # greedy_loop c \<lparr> cursorX = cursorX st' + in_l it + 0.01, cursorZ = cursorZ st',
                                 layerHeight = max (layerHeight st') (in_w it) \<rparr> rest
             \<and> m_min (greedy_mesh c st' it) = (cursorX st', 0, cursorZ st')
             \<and> m_dims (greedy_mesh c st' it) = (in_l it, in_w it, in_h it)))"
    unfolding w [symmetric] Let_def
    by (simp add: a greedy_mesh_def Let_def)
  have top: "p_packedItemsData p = None \<or> p_packedItemsData p = Some [] \<longrightarrow>
        s_boxes (render_resolver p) =
          greedy_loop (s_container (render_resolver p))
            \<lparr> cursorX = 0, cursorZ = 0, layerHeight = 0 \<rparr> (expand_spec (p_boxDimensions p))"
    by (auto simp: render_resolver_def Let_def greedy_placement_def instances_of_spec)
  have pD: "p_packedItemsData propsD = None" "p_containerDimensions propsD = cdD"
    "p_boxDimensions propsD = [boxD]"
    by (simp_all add: propsD_def)
  have d: "s_container (render_resolver propsD) = cD" "s_boxes (render_resolver propsD) = []"
    using render_resolver_None [OF pD(1)]
    by (simp_all add: pD container_of_cdD greedy_placement_D)
  have d': "render_shipped propsD = []"
    by (simp add: render_shipped_def createBoxesGroup_def pD container_of_cdD greedy_placement_D)
  have q: "1 \<le> n \<and> bd_quantity b = Num (real n) \<longrightarrow> qty b = n"
    by (simp add: qty_positive_integer)
  have e: "greedy_loop c st [] = []" by simp
  from instances_of_spec [of bds] q top e step greedy_loop_length [of c st insts]
    greedy_loop_prefix [of c st insts] d d'
  show ?thesis by (intro conjI)
qed

text \<open>
  The cases of C4 on the \<open>1 \<times> 1 \<times> 1\<close> container: the item of width 1
  wraps and stops the loop, the item of width 0.5 wraps and is placed.
\<close>

theorem shelf_packer_algorithm_witness:
  "(1::nat) \<le> 1 \<and> bd_quantity boxD = Num (real (1::nat)) \<and> qty boxD = 1
   \<and> p_packedItemsData propsD = None
   \<and> s_boxes (render_resolver propsD) =
        greedy_loop (s_container (render_resolver propsD))
          \<lparr> cursorX = 0, cursorZ = 0, layerHeight = 0 \<rparr> (expand_spec (p_boxDimensions propsD))
   \<and> containerLength cD < 0 + 2
   \<and> containerWidth cD < 0.01 + 1
   \<and> greedy_loop cD \<lparr> cursorX = 0, cursorZ = 0, layerHeight = 0 \<rparr>
        [\<lparr> in_l = 2, in_w = 1, in_h = 1, in_idx = 0 \<rparr>] = []
   \<and> \<not> containerWidth cD < 0.01 + 0.5
   \<and> greedy_loop cD \<lparr> cursorX = 0, cursorZ = 0, layerHeight = 0 \<rparr>
        [\<lparr> in_l = 2, in_w = 0.5, in_h = 1, in_idx = 0 \<rparr>]
       = [greedy_mesh cD \<lparr> cursorX = 0, cursorZ = 0.01, layerHeight = 0 \<rparr>
            \<lparr> in_l = 2, in_w = 0.5, in_h = 1, in_idx = 0 \<rparr>]"
proof -
  let ?init = "\<lparr> cursorX = 0, cursorZ = 0, layerHeight = 0 \<rparr>"
  let ?iD = "\<lparr> in_l = 2, in_w = 1, in_h = 1, in_idx = 0 \<rparr>"
  let ?iB = "\<lparr> in_l = 2, in_w = 0.5, in_h = 1, in_idx = 0 \<rparr>"
  let ?st' = "\<lparr> cursorX = 0, cursorZ = 0.01, layerHeight = 0 \<rparr>"
  note tD = shelf_packer_algorithm [where n = 1 and b = boxD and p = propsD and c = cD
      and st = ?init and it = ?iD and rest = "[]"]
  note tB = shelf_packer_algorithm [where c = cD and st = ?init and it = ?iB and rest = "[]"]
  have q0: "(1::nat) \<le> 1 \<and> bd_quantity boxD = Num (real (1::nat))" by (simp add: boxD_def)
  from tD q0 have q: "qty boxD = 1" by blast
  have n: "p_packedItemsData propsD = None" by (simp add: propsD_def)
  from tD n have top: "s_boxes (render_resolver propsD) =
        greedy_loop (s_container (render_resolver propsD)) ?init (expand_spec (p_boxDimensions propsD))"
    by blast
  have l: "containerLength cD < 0 + 2" by (simp add: cD_def)
  have wD: "containerWidth cD < 0.01 + 1" by (simp add: cD_def)
  have wB: "\<not> containerWidth cD < 0.01 + 0.5" by (simp add: cD_def)
  have stD: "(if cursorX ?init + in_l ?iD > containerLength cD
              then \<lparr> cursorX = 0, cursorZ = cursorZ ?init + layerHeight ?init + 0.01, layerHeight = 0 \<rparr>
              else ?init) = ?st'"
    using l by simp
  have stB: "(if cursorX ?init + in_l ?iB > containerLength cD
              then \<lparr> cursorX = 0, cursorZ = cursorZ ?init + layerHeight ?init + 0.01, layerHeight = 0 \<rparr>
              else ?init) = ?st'"
    using l by simp
  from tD have "cursorZ ?st' + in_w ?iD > containerWidth cD \<longrightarrow> greedy_loop cD ?init [?iD] = []"
    unfolding stD Let_def by blast
  with wD have gD: "greedy_loop cD ?init [?iD] = []" by simp
  from tB have "\<not> cursorZ ?st' + in_w ?iB > containerWidth cD \<longrightarrow>
      greedy_loop cD ?init [?iB] =
        greedy_mesh cD ?st' ?iB
        # greedy_loop cD \<lparr> cursorX = cursorX ?st' + in_l ?iB + 0.01, cursorZ = cursorZ ?st',
                           layerHeight = max (layerHeight ?st') (in_w ?iB) \<rparr> []"
    unfolding stB Let_def by blast
  with wB have gB: "greedy_loop cD ?init [?iB] = [greedy_mesh cD ?st' ?iB]" by simp
  from q0 q n top l wD gD wB gB show ?thesis by (intro conjI) simp_all
qed

text \<open>
  C5. Every box of the scene sits at
  \<open>((minX + l/2 - containerLength/2) * sceneScale, (minY + h/2) * sceneScale,
  (minZ + w/2 - containerWidth/2) * sceneScale)\<close>: centred on the length and width axes, not
  on the height axis. For the \<open>2 \<times> 2 \<times> 2\<close> m container with one \<open>1 \<times> 1 \<times> 1\<close> m item at
  \<open>[0, 0, 0]\<close>, candidate 1 validates, the minimum corner is \<open>(0, 0, 0)\<close>, the scale is 4
  and the scene position is \<open>(-2, 2, -2)\<close>.
\<close>

theorem scene_position_centering:
  "(\<forall>m \<in> set (s_boxes (render_resolver p)).
      scene_formula (s_container (render_resolver p)) (s_sceneScale (render_resolver p)) m)
   \<and> s_container (render_resolver propsA) = cA
   \<and> s_chosen (render_resolver propsA) = Some ''min-corner (x=length,z=width)''
   \<and> s_sceneScale (render_resolver propsA) = 4
   \<and> map m_min (s_boxes (render_resolver propsA)) = [(0, 0, 0)]
   \<and> map m_position (s_boxes (render_resolver propsA)) = [(- 2, 2, - 2)]"
proof (intro conjI ballI)
  fix m assume "m \<in> set (s_boxes (render_resolver p))"
  then show "scene_formula (s_container (render_resolver p)) (s_sceneScale (render_resolver p)) m"
    by (auto simp: render_resolver_def Let_def greedy_placement_def
        dest: resolve_formula greedy_loop_formula split: option.splits if_splits)
next
  show "s_container (render_resolver propsA) = cA"
    "s_chosen (render_resolver propsA) = Some ''min-corner (x=length,z=width)''"
    "s_sceneScale (render_resolver propsA) = 4"
    "map m_min (s_boxes (render_resolver propsA)) = [(0, 0, 0)]"
    "map m_position (s_boxes (render_resolver propsA)) = [(- 2, 2, - 2)]"
    by (simp_all add: render_resolver_propsA place_validated_itemA)
qed

text \<open>C5 at the box of the first input.\<close>

theorem scene_position_centering_witness:
  "place_validated cA asMinCorner (0, itemA) \<in> set (s_boxes (render_resolver propsA))
   \<and> m_min (place_validated cA asMinCorner (0, itemA)) = (0, 0, 0)
   \<and> m_dims (place_validated cA asMinCorner (0, itemA)) = (1, 1, 1)
   \<and> scene_formula (s_container (render_resolver propsA)) (s_sceneScale (render_resolver propsA))
        (place_validated cA asMinCorner (0, itemA))"
proof -
  have mem: "place_validated cA asMinCorner (0, itemA) \<in> set (s_boxes (render_resolver propsA))"
    by (simp add: render_resolver_propsA)
  from scene_position_centering [of propsA] mem
  have "scene_formula (s_container (render_resolver propsA)) (s_sceneScale (render_resolver propsA))
        (place_validated cA asMinCorner (0, itemA))"
    by blast
  with mem show ?thesis by (simp add: place_validated_itemA)
qed

text \<open>
  C6. A container dimension that is not strictly positive after conversion (the input was
  zero, negative or non-numeric) is replaced by the fixed constant: length 2, width 1.5,
  height 1.5. The guard is \<open>> 0\<close>, with no epsilon: every strictly positive dimension,
  however small, is kept. So the largest dimension is positive and the scale is
  \<open>targetMax / max(length, width, height)\<close>, never a division by zero.
\<close>

theorem container_dimension_defaults:
  "(contL cd \<le> 0 \<longrightarrow> containerLength (container_of cd) = 2)
   \<and> (contW cd \<le> 0 \<longrightarrow> containerWidth (container_of cd) = 1.5)
   \<and> (contH cd \<le> 0 \<longrightarrow> containerHeight (container_of cd) = 1.5)
   \<and> (0 < contL cd \<longrightarrow> containerLength (container_of cd) = contL cd)
   \<and> (0 < contW cd \<longrightarrow> containerWidth (container_of cd) = contW cd)
   \<and> (0 < contH cd \<longrightarrow> containerHeight (container_of cd) = contH cd)
   \<and> (contL cd \<le> 0 \<longleftrightarrow> (case cd_length cd of NaN \<Rightarrow> True | Num v \<Rightarrow> v \<le> 0))
   \<and> (contW cd \<le> 0 \<longleftrightarrow> (case cd_width cd of NaN \<Rightarrow> True | Num v \<Rightarrow> v \<le> 0))
   \<and> (contH cd \<le> 0 \<longleftrightarrow> (case cd_height cd of NaN \<Rightarrow> True | Num v \<Rightarrow> v \<le> 0))
   \<and> 0 < maxDim (container_of cd)
   \<and> sceneScale (container_of cd) = targetMax / maxDim (container_of cd)
   \<and> 0 < sceneScale (container_of cd)"
proof -
  have a: "(contL cd \<le> 0 \<longrightarrow> containerLength (container_of cd) = 2)
   \<and> (contW cd \<le> 0 \<longrightarrow> containerWidth (container_of cd) = 1.5)
   \<and> (contH cd \<le> 0 \<longrightarrow> containerHeight (container_of cd) = 1.5)
   \<and> (0 < contL cd \<longrightarrow> containerLength (container_of cd) = contL cd)
   \<and> (0 < contW cd \<longrightarrow> containerWidth (container_of cd) = contW cd)
   \<and> (0 < contH cd \<longrightarrow> containerHeight (container_of cd) = contH cd)"
    by (simp add: container_of_def)
  have b: "(contL cd \<le> 0 \<longleftrightarrow> (case cd_length cd of NaN \<Rightarrow> True | Num v \<Rightarrow> v \<le> 0))"
    "(contW cd \<le> 0 \<longleftrightarrow> (case cd_width cd of NaN \<Rightarrow> True | Num v \<Rightarrow> v \<le> 0))"
    "(contH cd \<le> 0 \<longleftrightarrow> (case cd_height cd of NaN \<Rightarrow> True | Num v \<Rightarrow> v \<le> 0))"
    by (simp_all only: contL_def contW_def contH_def convertToMeters_sign number_or_0_nonpos)
  have c: "sceneScale (container_of cd) = targetMax / maxDim (container_of cd)"
    by (simp add: sceneScale_def maxDim_container_of_pos)
  have d: "0 < sceneScale (container_of cd)"
    unfolding c by (simp add: targetMax_def maxDim_container_of_pos)
  from a b c d maxDim_container_of_pos [of cd] show ?thesis by blast
qed

text \<open>
  C6 at a container with length 0, negative width and non-numeric height: all three defaults
  apply and the scale is 4; and at the \<open>2 \<times> 2 \<times> 2\<close> container, whose
  length is kept.
\<close>

theorem container_dimension_defaults_witness:
  "contL cdBad \<le> 0 \<and> contW cdBad \<le> 0 \<and> contH cdBad \<le> 0
   \<and> container_of cdBad = \<lparr> containerLength = 2, containerWidth = 1.5, containerHeight = 1.5 \<rparr>
   \<and> 0 < contL cdA \<and> containerLength (container_of cdA) = contL cdA
   \<and> sceneScale (container_of cdBad) = 4"
proof -
  have n: "contL cdBad \<le> 0" "contW cdBad \<le> 0" "contH cdBad \<le> 0"
    by (simp_all add: contL_def contW_def contH_def cdBad_def convertToMeters_def)
  have pA: "0 < contL cdA" by (simp add: contL_def cdA_def convertToMeters_def)
  note t = container_dimension_defaults [of cdBad]
  from t n have e: "containerLength (container_of cdBad) = 2"
    "containerWidth (container_of cdBad) = 1.5" "containerHeight (container_of cdBad) = 1.5"
    by blast+
  then have c: "container_of cdBad = \<lparr> containerLength = 2, containerWidth = 1.5, containerHeight = 1.5 \<rparr>"
    by (cases "container_of cdBad") simp
  from t have "sceneScale (container_of cdBad) = targetMax / maxDim (container_of cdBad)" by blast
  then have s: "sceneScale (container_of cdBad) = 4"
    unfolding c by (simp add: targetMax_def maxDim_def)
  from container_dimension_defaults [of cdA] pA
  have "containerLength (container_of cdA) = contL cdA" by blast
  with n c pA s show ?thesis by simp
qed

text \<open>
  C6, as first stated, fails for a positive dimension below an epsilon: a container length of
  \<open>1e-10\<close> m, below the tolerance \<open>1e-9\<close>, is kept and not replaced by 2.
\<close>

theorem tiny_container_length_kept:
  "contL cdTiny = 0.0000000001 \<and> contL cdTiny < 0.000000001
   \<and> containerLength (container_of cdTiny) = 0.0000000001
   \<and> containerLength (container_of cdTiny) \<noteq> 2"
  by (simp add: container_of_def contL_def cdTiny_def convertToMeters_def)

text \<open>
  C7. The unit normalizer returns \<open>v / 100\<close> for \<open>cm\<close>, \<open>v / 1000\<close> for \<open>mm\<close>,
  \<open>v * 0.0254\<close> for \<open>in\<close>, and \<open>v\<close> itself for \<open>m\<close>, for a missing unit and for every
  other string. It is a total function: every input has a result.
\<close>

theorem convertToMeters_cases:
  "convertToMeters v (Some ''cm'') = v / 100
   \<and> convertToMeters v (Some ''mm'') = v / 1000
   \<and> convertToMeters v (Some ''in'') = v * 0.0254
   \<and> convertToMeters v (Some ''m'') = v
   \<and> convertToMeters v None = v
   \<and> (u \<noteq> ''cm'' \<and> u \<noteq> ''mm'' \<and> u \<noteq> ''in'' \<longrightarrow> convertToMeters v (Some u) = v)"
  by (simp add: convertToMeters_def)

text \<open>C7 at the value 250, with \<open>ft\<close> as a unit outside the table.\<close>

theorem convertToMeters_cases_witness:
  "convertToMeters 250 (Some ''cm'') = 5 / 2
   \<and> convertToMeters 250 (Some ''mm'') = 1 / 4
   \<and> convertToMeters 250 (Some ''in'') = 250 * 0.0254
   \<and> convertToMeters 250 (Some ''m'') = 250
   \<and> convertToMeters 250 None = 250
   \<and> ''ft'' \<noteq> ''cm'' \<and> ''ft'' \<noteq> ''mm'' \<and> ''ft'' \<noteq> ''in''
   \<and> convertToMeters 250 (Some ''ft'') = 250"
  using convertToMeters_cases [of 250 "''ft''"] by simp

text \<open>
  C8. Two runs whose container specification and non-empty packed-item list are the same
  produce the same scene: the same boxes, the same chosen interpretation, the same
  diagnostic, whatever the other properties of the two runs are.
\<close>

theorem resolution_deterministic:
  assumes "p_containerDimensions p1 = p_containerDimensions p2"
    and "p_packedItemsData p1 = p_packedItemsData p2"
    and "p_packedItemsData p1 = Some items" and "items \<noteq> []"
  shows "render_resolver p1 = render_resolver p2"
proof -
  have p2: "p_packedItemsData p2 = Some items" using assms by simp
  note r1 = render_resolver_packed [OF assms(3) assms(4) refl]
  note r2 = render_resolver_packed [OF p2 assms(4) refl]
  show ?thesis unfolding r1 r2 assms(1) by (rule refl)
qed

text \<open>
  C8 at two runs that differ in item specifications, instance budget and grid flag.
\<close>

theorem resolution_deterministic_witness:
  "p_containerDimensions propsA = p_containerDimensions propsA'
   \<and> p_packedItemsData propsA = p_packedItemsData propsA'
   \<and> p_packedItemsData propsA = Some [itemA] \<and> [itemA] \<noteq> []
   \<and> p_boxDimensions propsA \<noteq> p_boxDimensions propsA'
   \<and> p_showGrid propsA \<noteq> p_showGrid propsA'
   \<and> render_resolver propsA = render_resolver propsA'
   \<and> s_chosen (render_resolver propsA') = Some ''min-corner (x=length,z=width)''"
proof -
  have h1: "p_containerDimensions propsA = p_containerDimensions propsA'"
    by (simp add: propsA_def propsA'_def)
  have h2: "p_packedItemsData propsA = p_packedItemsData propsA'"
    by (simp add: propsA_def propsA'_def)
  have h3: "p_packedItemsData propsA = Some [itemA]" by (simp add: propsA_def)
  have h4: "[itemA] \<noteq> []" by simp
  have d: "p_boxDimensions propsA \<noteq> p_boxDimensions propsA'" "p_showGrid propsA \<noteq> p_showGrid propsA'"
    by (simp_all add: propsA_def propsA'_def)
  have e: "render_resolver propsA = render_resolver propsA'"
    by (rule resolution_deterministic [OF h1 h2 h3 h4])
  from e [symmetric]
  have "s_chosen (render_resolver propsA') = Some ''min-corner (x=length,z=width)''"
    by (simp add: render_resolver_propsA)
  with h1 h2 h3 h4 d e show ?thesis by simp
qed

text \<open>
  C9. When every packed item has positive dimensions and its raw position, read as a
  minimum corner, lies in \<open>[0, containerDim - itemDim]\<close> on each axis, the shipped component
  (which clamps every item and searches nothing) builds the same boxes, at the same scene
  positions, as the resolver version, which then selects candidate 1 and does not clamp.
\<close>

theorem shipped_agrees_on_exact_fit:
  assumes "p_packedItemsData p = Some items"
    and "\<forall>it \<in> set items. exact_fit (container_of (p_containerDimensions p)) it"
  shows "s_boxes (render_resolver p) = render_shipped p
    \<and> map m_position (s_boxes (render_resolver p)) = map m_position (render_shipped p)
    \<and> (items \<noteq> [] \<longrightarrow> s_chosen (render_resolver p) = Some ''min-corner (x=length,z=width)''
                      \<and> \<not> s_usedFallback (render_resolver p)
                      \<and> s_boxes (render_resolver p)
                          = map (place_validated (container_of (p_containerDimensions p)) asMinCorner)
                              (enumerate 0 items))"
proof (cases "items = []")
  case True
  with assms(1) show ?thesis
    by (simp add: render_resolver_def render_shipped_def createBoxesGroup_def Let_def)
next
  case False
  define c where "c = container_of (p_containerDimensions p)"
  note rr = render_resolver_packed [OF assms(1) False c_def]
  have o: "overflowCount_of c items 0 = 0"
    using assms(2) unfolding c_def [symmetric] by (rule exact_fit_count)
  have bx: "s_boxes (render_resolver p) = map (place_validated c asMinCorner) (enumerate 0 items)"
    and ch: "s_chosen (render_resolver p) = Some ''min-corner (x=length,z=width)''"
    and fb: "\<not> s_usedFallback (render_resolver p)"
    unfolding rr using o by (simp_all add: resolve_cases)
  have sh: "render_shipped p = map (place_shipped c) (enumerate 0 items)"
    using assms(1) False by (simp add: render_shipped_def createBoxesGroup_def c_def)
  have "map (place_validated c asMinCorner) (enumerate 0 items)
          = map (place_shipped c) (enumerate 0 items)"
  proof (rule map_cong [OF refl])
    fix q assume "q \<in> set (enumerate 0 items)"
    then have "snd q \<in> set items" by (rule snd_enumerate_mem)
    with assms(2) have "exact_fit c (snd q)" by (simp add: c_def)
    then have "place_validated c asMinCorner (fst q, snd q) = place_shipped c (fst q, snd q)"
      by (rule exact_fit_place)
    then show "place_validated c asMinCorner q = place_shipped c q" by simp
  qed
  with bx sh have eq: "s_boxes (render_resolver p) = render_shipped p" by simp
  from eq ch fb bx False show ?thesis unfolding c_def by simp
qed

text \<open>C9 at the first input, whose item fits exactly under candidate 1.\<close>

theorem shipped_agrees_on_exact_fit_witness:
  "p_packedItemsData propsA = Some [itemA]
   \<and> exact_fit (container_of (p_containerDimensions propsA)) itemA
   \<and> s_boxes (render_resolver propsA) = render_shipped propsA
   \<and> map m_position (render_shipped propsA) = [(- 2, 2, - 2)]"
proof -
  have h1: "p_packedItemsData propsA = Some [itemA]" by (simp add: propsA_def)
  have h2: "\<forall>it \<in> set [itemA]. exact_fit (container_of (p_containerDimensions propsA)) it"
    by (simp add: propsA_def container_of_cdA exact_fit_itemA)
  from shipped_agrees_on_exact_fit [OF h1 h2]
  have e: "s_boxes (render_resolver propsA) = render_shipped propsA" by blast
  then have "map m_position (render_shipped propsA) = [(- 2, 2, - 2)]"
    by (simp add: e [symmetric] render_resolver_propsA place_validated_itemA)
  with h1 h2 e show ?thesis by simp
qed

text \<open>
  C10. Every box the shelf loop places has \<open>cursorZ \<ge> 0\<close> and
  \<open>cursorZ + width \<le> containerWidth\<close>. Nothing bounds the length axis after a wrap: a first
  instance longer than the container whose width fits in the row is placed at
  \<open>cursorX = 0\<close> with \<open>cursorX + length > containerLength\<close>; so it is for a
  \<open>1 \<times> 1 \<times> 1\<close> container and one item of length 2 and width 0.5, in both versions of
  the component.
\<close>

theorem shelf_width_contained_length_not:
  "(\<forall>m \<in> set (greedy_placement c bds).
      case (m_min m, m_dims m) of ((x, y, z), (l, w, h)) \<Rightarrow> 0 \<le> z \<and> z + w \<le> containerWidth c)
   \<and> (in_l it > containerLength c \<and> padding + in_w it \<le> containerWidth c \<longrightarrow>
        (\<exists>ms. greedy_loop c \<lparr> cursorX = 0, cursorZ = 0, layerHeight = 0 \<rparr> (it # rest)
                = greedy_mesh c \<lparr> cursorX = 0, cursorZ = padding, layerHeight = 0 \<rparr> it # ms)
        \<and> m_min (greedy_mesh c \<lparr> cursorX = 0, cursorZ = padding, layerHeight = 0 \<rparr> it) = (0, 0, padding)
        \<and> 0 + in_l it > containerLength c)
   \<and> s_container (render_resolver propsE) = cD
   \<and> map m_min (s_boxes (render_resolver propsE)) = [(0, 0, 0.01)]
   \<and> map m_dims (s_boxes (render_resolver propsE)) = [(2, 0.5, 1)]
   \<and> (0::real) + 2 > containerLength cD
   \<and> map m_min (render_shipped propsE) = [(0, 0, 0.01)]
   \<and> map m_dims (render_shipped propsE) = [(2, 0.5, 1)]"
proof -
  have inv: "\<forall>m \<in> set (greedy_placement c bds).
      case (m_min m, m_dims m) of ((x, y, z), (l, w, h)) \<Rightarrow> 0 \<le> z \<and> z + w \<le> containerWidth c"
    unfolding greedy_placement_def
    by (intro ballI, rule greedy_loop_width_inv [of "\<lparr> cursorX = 0, cursorZ = 0, layerHeight = 0 \<rparr>"]) simp_all
  have ex: "in_l it > containerLength c \<and> padding + in_w it \<le> containerWidth c \<longrightarrow>
        (\<exists>ms. greedy_loop c \<lparr> cursorX = 0, cursorZ = 0, layerHeight = 0 \<rparr> (it # rest)
                = greedy_mesh c \<lparr> cursorX = 0, cursorZ = padding, layerHeight = 0 \<rparr> it # ms)
        \<and> m_min (greedy_mesh c \<lparr> cursorX = 0, cursorZ = padding, layerHeight = 0 \<rparr> it) = (0, 0, padding)
        \<and> 0 + in_l it > containerLength c"
    by (simp add: wrap_def greedy_mesh_def Let_def)
  have pE: "p_packedItemsData propsE = None" "p_containerDimensions propsE = cdD"
    "p_boxDimensions propsE = [boxB]"
    by (simp_all add: propsE_def)
  have e: "s_container (render_resolver propsE) = cD"
    "map m_min (s_boxes (render_resolver propsE)) = [(0, 0, 0.01)]"
    "map m_dims (s_boxes (render_resolver propsE)) = [(2, 0.5, 1)]"
    using render_resolver_None [OF pE(1)]
    by (simp_all add: pE container_of_cdD greedy_placement_E greedy_mesh_def Let_def)
  have e': "map m_min (render_shipped propsE) = [(0, 0, 0.01)]"
    "map m_dims (render_shipped propsE) = [(2, 0.5, 1)]"
    by (simp_all add: render_shipped_def createBoxesGroup_def pE container_of_cdD greedy_placement_E
        greedy_mesh_def Let_def)
  have l: "(0::real) + 2 > containerLength cD" by (simp add: cD_def)
  from inv ex e e' l show ?thesis by (intro conjI)
qed

text \<open>
  C10 at the \<open>1 \<times> 1 \<times> 1\<close> container and the item of length 2 and
  width 0.5.
\<close>

theorem shelf_width_contained_length_not_witness:
  "greedy_mesh cD \<lparr> cursorX = 0, cursorZ = padding, layerHeight = 0 \<rparr>
       \<lparr> in_l = 2, in_w = 0.5, in_h = 1, in_idx = 0 \<rparr> \<in> set (greedy_placement cD [boxB])
   \<and> containerLength cD < 2 \<and> padding + 0.5 \<le> containerWidth cD
   \<and> m_min (greedy_mesh cD \<lparr> cursorX = 0, cursorZ = padding, layerHeight = 0 \<rparr>
       \<lparr> in_l = 2, in_w = 0.5, in_h = 1, in_idx = 0 \<rparr>) = (0, 0, padding)
   \<and> m_dims (greedy_mesh cD \<lparr> cursorX = 0, cursorZ = padding, layerHeight = 0 \<rparr>
       \<lparr> in_l = 2, in_w = 0.5, in_h = 1, in_idx = 0 \<rparr>) = (2, 0.5, 1)
   \<and> 0 \<le> padding \<and> padding + 0.5 \<le> containerWidth cD"
proof -
  let ?iB = "\<lparr> in_l = 2, in_w = 0.5, in_h = 1, in_idx = 0 \<rparr>"
  let ?m = "greedy_mesh cD \<lparr> cursorX = 0, cursorZ = padding, layerHeight = 0 \<rparr> ?iB"
  note t = shelf_width_contained_length_not [where c = cD and bds = "[boxB]" and it = ?iB
      and rest = "[]"]
  have mem: "?m \<in> set (greedy_placement cD [boxB])"
    by (simp add: greedy_placement_E padding_def)
  have h: "in_l ?iB > containerLength cD \<and> padding + in_w ?iB \<le> containerWidth cD"
    by (simp add: cD_def padding_def)
  from t h have mm: "m_min ?m = (0, 0, padding)" by blast
  have md: "m_dims ?m = (2, 0.5, 1)" by (simp add: greedy_mesh_def Let_def)
  from t have "\<forall>m \<in> set (greedy_placement cD [boxB]).
      case (m_min m, m_dims m) of ((x, y, z), (l, w, h)) \<Rightarrow> 0 \<le> z \<and> z + w \<le> containerWidth cD"
    by (rule conjunct1)
  from this mem have "case (m_min ?m, m_dims ?m) of
      ((x, y, z), (l, w, h)) \<Rightarrow> 0 \<le> z \<and> z + w \<le> containerWidth cD"
    by (rule bspec)
  then have z: "0 \<le> padding \<and> padding + 0.5 \<le> containerWidth cD"
    unfolding mm md by simp
  from mem h mm md z show ?thesis by simp
qed

end
